theory Spec2Isabelle
  imports Complex_Main
begin

section \<open>Python primitives used by the sources\<close>

text \<open>
  A Python \<open>str\<close> is modelled as a \<open>string\<close>, one \<open>char\<close> per code point, for
  code points below 256 (ASCII and Latin-1). \<open>len\<close> is \<open>length\<close>.
\<close>

definition py_slice_to :: "string \<Rightarrow> int \<Rightarrow> string" where
  \<comment> \<open>Python's \<open>text[:k]\<close>: a negative bound counts from the end and is clamped at 0.\<close>
  "py_slice_to text k =
     (if 0 \<le> k then take (nat k) text
      else take (nat (int (length text) + k)) text)"

definition py_lower_char :: "char \<Rightarrow> char" where
  \<comment> \<open>\<open>str.lower\<close> on one code point below 256: A-Z and the Latin-1 capitals.\<close>
  "py_lower_char c =
     (let n = (of_char c :: nat)
      in if (65 \<le> n \<and> n \<le> 90) \<or> (192 \<le> n \<and> n \<le> 214) \<or> (216 \<le> n \<and> n \<le> 222)
         then char_of (n + 32) else c)"

definition py_lower :: "string \<Rightarrow> string" where
  "py_lower s = map py_lower_char s"

definition py_lstrip_chars :: "string \<Rightarrow> string \<Rightarrow> string" where
  \<comment> \<open>\<open>s.lstrip(chars)\<close>\<close>
  "py_lstrip_chars chars s = dropWhile (\<lambda>c. c \<in> set chars) s"

fun py_split :: "char \<Rightarrow> string \<Rightarrow> string list" where
  \<comment> \<open>\<open>s.split(sep)\<close> for a one-character separator\<close>
  "py_split sep [] = [[]]"
| "py_split sep (c # cs) =
     (if c = sep then [] # py_split sep cs
      else (case py_split sep cs of w # ws \<Rightarrow> (c # w) # ws | [] \<Rightarrow> [[c]]))"

fun py_rfind :: "char \<Rightarrow> string \<Rightarrow> nat option" where
  \<comment> \<open>\<open>s.rfind(c)\<close>; \<open>None\<close> stands for \<open>-1\<close>\<close>
  "py_rfind c [] = None"
| "py_rfind c (x # xs) =
     (case py_rfind c xs of
        Some i \<Rightarrow> Some (Suc i)
      | None \<Rightarrow> (if x = c then Some 0 else None))"

fun str_nat :: "nat \<Rightarrow> string" where
  \<comment> \<open>\<open>str(n)\<close> of a non-negative integer: its decimal digits\<close>
  "str_nat n =
     (if n < 10 then [char_of (48 + n)]
      else str_nat (n div 10) @ [char_of (48 + n mod 10)])"

declare str_nat.simps [simp del]

subsection \<open>pathlib (POSIX flavour, the classic \<open>suffix\<close>/\<open>stem\<close> of Python up to 3.12)\<close>

text \<open>
  A \<open>Path\<close> is its anchor (absolute or not) and its list of components; parsing a string
  drops empty and \<open>.\<close> components, as pathlib does.
\<close>

datatype path = Path (is_absolute: bool) (parts: "string list")

definition path_parts :: "string \<Rightarrow> string list" where
  "path_parts s = filter (\<lambda>x. x \<noteq> [] \<and> x \<noteq> ''.'') (py_split CHR ''/'' s)"

definition Path_of :: "string \<Rightarrow> path" where
  \<comment> \<open>\<open>Path(s)\<close>\<close>
  "Path_of s = Path (case s of [] \<Rightarrow> False | c # _ \<Rightarrow> c = CHR ''/'') (path_parts s)"

definition path_name :: "path \<Rightarrow> string" where
  \<comment> \<open>\<open>p.name\<close>: the final component, empty when there is none\<close>
  "path_name p = (case parts p of [] \<Rightarrow> [] | _ \<Rightarrow> last (parts p))"

definition name_suffix :: "string \<Rightarrow> string" where
  \<comment> \<open>\<open>i = name.rfind('.'); name[i:] if 0 < i < len(name) - 1 else ''\<close>\<close>
  "name_suffix name =
     (case py_rfind CHR ''.'' name of
        Some i \<Rightarrow> (if 0 < i \<and> i + 1 < length name then drop i name else [])
      | None \<Rightarrow> [])"

definition name_stem :: "string \<Rightarrow> string" where
  \<comment> \<open>\<open>name[:i] if 0 < i < len(name) - 1 else name\<close>\<close>
  "name_stem name =
     (case py_rfind CHR ''.'' name of
        Some i \<Rightarrow> (if 0 < i \<and> i + 1 < length name then take i name else name)
      | None \<Rightarrow> name)"

definition path_suffix :: "path \<Rightarrow> string" where
  "path_suffix p = name_suffix (path_name p)"

definition path_stem :: "path \<Rightarrow> string" where
  "path_stem p = name_stem (path_name p)"

definition path_parent :: "path \<Rightarrow> path" where
  "path_parent p = Path (is_absolute p) (butlast (parts p))"

definition path_join :: "path \<Rightarrow> string \<Rightarrow> path" where
  \<comment> \<open>\<open>p / s\<close>: an absolute right operand replaces the left one\<close>
  "path_join p s =
     (case s of
        c # _ \<Rightarrow> (if c = CHR ''/'' then Path True (path_parts s)
                  else Path (is_absolute p) (parts p @ path_parts s))
      | [] \<Rightarrow> p)"

text \<open>
  The file system is read through \<open>exists\<close> only: it is the finite list of the paths
  that exist.
\<close>

type_synonym filesystem = "path list"

definition path_exists :: "filesystem \<Rightarrow> path \<Rightarrow> bool" where
  "path_exists fs p = (p \<in> set fs)"

section \<open>src/utils/helpers.py\<close>

definition get_file_extension :: "string \<Rightarrow> string" where
  "get_file_extension filename =
     py_lstrip_chars ''.'' (py_lower (path_suffix (Path_of filename)))"

definition is_supported_format :: "string \<Rightarrow> string list \<Rightarrow> bool" where
  "is_supported_format filename supported_formats =
     (let extension = get_file_extension filename
      in extension \<in> set supported_formats)"

definition unique_candidate :: "path \<Rightarrow> nat \<Rightarrow> path" where
  \<comment> \<open>\<open>original_path.parent / f"{stem}_{counter}{suffix}"\<close>\<close>
  "unique_candidate original_path counter =
     path_join (path_parent original_path)
       (path_stem original_path @ ''_'' @ str_nat counter @ path_suffix original_path)"

subsection \<open>Facts the termination of the uniqueness loop rests on\<close>

text \<open>
  The candidates \<open>stem_1.ext\<close>, \<open>stem_2.ext\<close>, ... of one original path are pairwise
  different, so only finitely many of them exist in a finite file system.
\<close>

lemma str_nat_nonempty: "str_nat n \<noteq> []"
  by (subst str_nat.simps) simp

lemma char_of_digit_inj:
  "a < 10 \<Longrightarrow> b < 10 \<Longrightarrow> (char_of (48 + a) :: char) = char_of (48 + b) \<Longrightarrow> a = (b::nat)"
proof -
  assume a: "a < 10" and b: "b < 10" and e: "(char_of (48 + a) :: char) = char_of (48 + b)"
  from e have "(of_char (char_of (48 + a) :: char) :: nat) = of_char (char_of (48 + b) :: char)"
    by simp
  then have "(48 + a) mod 256 = (48 + b) mod 256" by simp
  with a b show ?thesis by simp
qed

lemma str_nat_inj: "str_nat a = str_nat b \<Longrightarrow> a = b"
proof (induction a arbitrary: b rule: str_nat.induct)
  case (1 n)
  show ?case
  proof (cases "n < 10")
    case True
    then have sn: "str_nat n = [char_of (48 + n)]" by (subst str_nat.simps) simp
    show ?thesis
    proof (cases "b < 10")
      case b: True
      then have "str_nat b = [char_of (48 + b)]" by (subst str_nat.simps) simp
      with sn "1.prems" True b show ?thesis by (auto dest: char_of_digit_inj)
    next
      case False
      then have "str_nat b = str_nat (b div 10) @ [char_of (48 + b mod 10)]"
        by (subst str_nat.simps) simp
      with sn "1.prems" str_nat_nonempty [of "b div 10"] show ?thesis by simp
    qed
  next
    case False
    then have sn: "str_nat n = str_nat (n div 10) @ [char_of (48 + n mod 10)]"
      by (subst str_nat.simps) simp
    show ?thesis
    proof (cases "b < 10")
      case True
      then have "str_nat b = [char_of (48 + b)]" by (subst str_nat.simps) simp
      with sn "1.prems" str_nat_nonempty [of "n div 10"] show ?thesis by simp
    next
      case b: False
      then have sb: "str_nat b = str_nat (b div 10) @ [char_of (48 + b mod 10)]"
        by (subst str_nat.simps) simp
      from sn sb "1.prems" have e1: "str_nat (n div 10) = str_nat (b div 10)"
        and e2: "(char_of (48 + n mod 10) :: char) = char_of (48 + b mod 10)" by auto
      from "1.IH" [OF False e1] have d: "n div 10 = b div 10" .
      from e2 have m: "n mod 10 = b mod 10" by (auto dest: char_of_digit_inj)
      from d m show ?thesis by (metis div_mult_mod_eq)
    qed
  qed
qed

lemma py_split_nonempty: "py_split sep s \<noteq> []"
  by (induction s) (auto split: list.splits)

lemma py_split_no_sep: "sep \<notin> set s \<Longrightarrow> py_split sep s = [s]"
  by (induction s) auto

lemma py_split_append:
  "py_split sep (a @ b) =
     butlast (py_split sep a) @ [last (py_split sep a) @ hd (py_split sep b)] @ tl (py_split sep b)"
proof (induction a)
  case Nil
  then show ?case using py_split_nonempty [of sep b] by (cases "py_split sep b") auto
next
  case (Cons c a)
  show ?case
  proof (cases "c = sep")
    case True
    with Cons py_split_nonempty [of sep a] show ?thesis by simp
  next
    case False
    obtain w ws where a: "py_split sep a = w # ws"
      using py_split_nonempty [of sep a] by (cases "py_split sep a") auto
    show ?thesis
    proof (cases ws)
      case Nil
      with a Cons False show ?thesis by simp
    next
      case (Cons x xs)
      with a Cons.IH False show ?thesis by simp
    qed
  qed
qed

lemma py_split_mid:
  assumes "sep \<notin> set m"
  shows "py_split sep (a @ m @ b) =
     butlast (py_split sep a) @ [last (py_split sep a) @ m @ hd (py_split sep b)] @ tl (py_split sep b)"
proof -
  have "py_split sep (m @ b) = [m @ hd (py_split sep b)] @ tl (py_split sep b)"
    using py_split_append [of sep m b] py_split_no_sep [OF assms] by simp
  then show ?thesis using py_split_append [of sep a "m @ b"] by simp
qed

lemma str_nat_no_slash: "CHR ''/'' \<notin> set (str_nat n)"
proof (induction n rule: str_nat.induct)
  case (1 n)
  have d: "(char_of (48 + d) :: char) \<noteq> CHR ''/''" if "d < 10" for d :: nat
  proof
    assume "(char_of (48 + d) :: char) = CHR ''/''"
    then have "(of_char (char_of (48 + d) :: char) :: nat) = of_char CHR ''/''" by simp
    then have "(48 + d) mod 256 = 47" by simp
    with that show False by simp
  qed
  show ?case
  proof (cases "n < 10")
    case True
    then show ?thesis using d [of n] by (subst str_nat.simps) auto
  next
    case False
    with 1 show ?thesis using d [of "n mod 10"] by (subst str_nat.simps) auto
  qed
qed

lemma path_parts_counter_inj:
  assumes "path_parts (a @ ''_'' @ str_nat j @ b) = path_parts (a @ ''_'' @ str_nat k @ b)"
  shows "j = k"
proof -
  let ?P = "\<lambda>x. x \<noteq> [] \<and> x \<noteq> ''.''"
  let ?A = "butlast (py_split CHR ''/'' a)" and ?l = "last (py_split CHR ''/'' a)"
  let ?h = "hd (py_split CHR ''/'' b)" and ?B = "tl (py_split CHR ''/'' b)"
  have sp: "py_split CHR ''/'' (a @ (''_'' @ str_nat n) @ b) = ?A @ [?l @ (''_'' @ str_nat n) @ ?h] @ ?B"
    for n by (rule py_split_mid) (use str_nat_no_slash [of n] in simp)
  have keep: "?P (?l @ (''_'' @ str_nat n) @ ?h)" for n
  proof -
    have "2 \<le> length (?l @ (''_'' @ str_nat n) @ ?h)"
      using str_nat_nonempty [of n] by (cases "str_nat n") auto
    then show ?thesis by (auto simp: Suc_le_eq dest!: arg_cong [where f = length])
  qed
  have pp: "path_parts (a @ ''_'' @ str_nat n @ b) =
      filter ?P ?A @ [?l @ (''_'' @ str_nat n) @ ?h] @ filter ?P ?B" for n
    using sp [of n] keep [of n] by (simp add: path_parts_def)
  from assms have "?l @ (''_'' @ str_nat j) @ ?h = ?l @ (''_'' @ str_nat k) @ ?h"
    unfolding pp by simp
  then have "str_nat j = str_nat k" by simp
  then show ?thesis by (rule str_nat_inj)
qed

lemma unique_candidate_inj: "unique_candidate p a = unique_candidate p b \<Longrightarrow> a = b"
proof -
  assume e: "unique_candidate p a = unique_candidate p b"
  let ?s = "\<lambda>n. path_stem p @ ''_'' @ str_nat n @ path_suffix p"
  have hd_eq: "hd (?s a) = hd (?s b)" by (cases "path_stem p") auto
  have ne: "?s n \<noteq> []" for n by simp
  obtain c cs where ca: "?s a = c # cs" using ne [of a] by (cases "?s a") auto
  obtain d ds where cb: "?s b = d # ds" using ne [of b] by (cases "?s b") auto
  from hd_eq ca cb have cd: "c = d" by simp
  from e have "path_parts (?s a) = path_parts (?s b)"
    unfolding unique_candidate_def path_join_def ca cb using cd
    by (simp split: if_splits)
  then show ?thesis by (rule path_parts_counter_inj)
qed

subsection \<open>ensure_unique_filename\<close>

function uniq_loop :: "filesystem \<Rightarrow> path \<Rightarrow> path \<Rightarrow> nat \<Rightarrow> path" where
  "uniq_loop fs original_path target_path counter =
     (if path_exists fs target_path
      then uniq_loop fs original_path (unique_candidate original_path counter) (counter + 1)
      else target_path)"
  by pat_completeness auto

definition taken_from :: "filesystem \<Rightarrow> path \<Rightarrow> nat \<Rightarrow> nat set" where
  "taken_from fs p c = {k. c \<le> k \<and> unique_candidate p k \<in> set fs}"

lemma finite_taken_from: "finite (taken_from fs p c)"
proof -
  have "taken_from fs p c \<subseteq> unique_candidate p -` set fs" by (auto simp: taken_from_def)
  moreover have "finite (unique_candidate p -` set fs)"
    by (rule finite_vimageI) (auto simp: inj_on_def dest: unique_candidate_inj)
  ultimately show ?thesis by (rule finite_subset)
qed

termination uniq_loop
proof (relation "measure (\<lambda>(fs, p, t, c). card (taken_from fs p c) + (if path_exists fs t then 1 else 0))")
  show "wf (measure (\<lambda>(fs, p, t, c). card (taken_from fs p c) + (if path_exists fs t then 1 else 0)))"
    by simp
next
  fix fs :: filesystem and original_path target_path :: path and counter :: nat
  assume ex: "path_exists fs target_path"
  have split: "taken_from fs original_path counter =
      (if unique_candidate original_path counter \<in> set fs then {counter} else {})
        \<union> taken_from fs original_path (counter + 1)"
    by (auto simp: taken_from_def le_less Suc_le_eq)
  have notin: "counter \<notin> taken_from fs original_path (counter + 1)"
    by (simp add: taken_from_def)
  have "card (taken_from fs original_path (counter + 1))
      + (if path_exists fs (unique_candidate original_path counter) then 1 else 0)
      = card (taken_from fs original_path counter)"
    using finite_taken_from [of fs original_path "counter + 1"] notin
    by (subst split) (simp add: path_exists_def)
  with ex show "((fs, original_path, unique_candidate original_path counter, counter + 1),
      (fs, original_path, target_path, counter))
    \<in> measure (\<lambda>(fs, p, t, c). card (taken_from fs p c) + (if path_exists fs t then 1 else 0))"
    by simp
qed


declare uniq_loop.simps [simp del]

definition ensure_unique_filename :: "filesystem \<Rightarrow> path \<Rightarrow> path" where
  "ensure_unique_filename fs target_path =
     (if \<not> path_exists fs target_path then target_path
      else uniq_loop fs target_path target_path 1)"

definition truncate_text :: "string \<Rightarrow> int \<Rightarrow> string" where
  "truncate_text text max_length =
     (if int (length text) \<le> max_length then text
      else py_slice_to text (max_length - 3) @ ''...'')"

section \<open>The regular expressions of the response parser\<close>

text \<open>
  The patterns of \<open>invoice_processor.py\<close> use literals, character classes, greedy and
  lazy repetition, a non-capturing group and one capturing group. \<open>rmatch\<close> is a
  backtracking matcher in the order of Python's \<open>re\<close>: it returns every way to match at
  the current position, first choice first, each with the rest of the text and the text
  of group 1. Every repeated item of these patterns consumes at least one character, so
  a repetition takes at most as many rounds as characters are left.
\<close>

definition py_upper_char :: "char \<Rightarrow> char" where
  "py_upper_char c =
     (let n = (of_char c :: nat)
      in if (97 \<le> n \<and> n \<le> 122) \<or> (224 \<le> n \<and> n \<le> 246) \<or> (248 \<le> n \<and> n \<le> 254)
         then char_of (n - 32) else c)"

definition py_upper :: "string \<Rightarrow> string" where
  "py_upper s = map py_upper_char s"

definition py_isspace :: "char \<Rightarrow> bool" where
  \<comment> \<open>the white space of \<open>\s\<close> and of \<open>str.strip()\<close>, below code point 256\<close>
  "py_isspace c =
     (let n = (of_char c :: nat)
      in (9 \<le> n \<and> n \<le> 13) \<or> (28 \<le> n \<and> n \<le> 32) \<or> n = 133 \<or> n = 160)"

definition py_strip :: "string \<Rightarrow> string" where
  "py_strip s = rev (dropWhile py_isspace (rev (dropWhile py_isspace s)))"

definition py_replace_char :: "char \<Rightarrow> string \<Rightarrow> string \<Rightarrow> string" where
  \<comment> \<open>\<open>s.replace(old, new)\<close> for a one-character \<open>old\<close>\<close>
  "py_replace_char old new s = concat (map (\<lambda>c. if c = old then new else [c]) s)"

datatype citem = CChar char | CRange char char | CSpace

datatype re =
    Eps
  | Lit char
  | Cls bool "citem list"
  | Dot
  | Seq re re
  | Rep re nat "nat option" bool
  | Grp re

text \<open>
  \<open>Cls neg items\<close> is \<open>[items]\<close>, negated when \<open>neg\<close>; \<open>Dot\<close> is \<open>.\<close> under DOTALL;
  \<open>Rep r lo hi greedy\<close> is \<open>r{lo,hi}\<close> (no upper bound when \<open>hi\<close> is \<open>None\<close>), lazy when
  \<open>greedy\<close> is false; \<open>Grp\<close> is the capturing group.
\<close>

definition re_star :: "re \<Rightarrow> re" where "re_star r = Rep r 0 None True"
definition re_plus :: "re \<Rightarrow> re" where "re_plus r = Rep r 1 None True"
definition re_opt :: "re \<Rightarrow> re" where "re_opt r = Rep r 0 (Some 1) True"
definition re_lazy_star :: "re \<Rightarrow> re" where "re_lazy_star r = Rep r 0 None False"
definition re_times :: "re \<Rightarrow> nat \<Rightarrow> nat \<Rightarrow> re" where "re_times r lo hi = Rep r lo (Some hi) True"

fun seqs :: "re list \<Rightarrow> re" where
  "seqs [] = Eps"
| "seqs (r # rs) = Seq r (seqs rs)"

definition lit :: "string \<Rightarrow> re" where
  "lit s = seqs (map Lit s)"

fun citem_has :: "citem \<Rightarrow> char \<Rightarrow> bool" where
  "citem_has (CChar c) x = (x = c)"
| "citem_has (CRange a b) x =
     ((of_char a :: nat) \<le> of_char x \<and> (of_char x :: nat) \<le> of_char b)"
| "citem_has CSpace x = py_isspace x"

definition cls_has :: "bool \<Rightarrow> citem list \<Rightarrow> char \<Rightarrow> bool" where
  \<comment> \<open>under IGNORECASE a character is in the class when one of its case variants is\<close>
  "cls_has ic items x =
     list_ex (\<lambda>it. citem_has it x \<or>
        (ic \<and> (citem_has it (py_lower_char x) \<or> citem_has it (py_upper_char x)))) items"

type_synonym mstate = "string \<times> string option"

fun rep :: "(mstate \<Rightarrow> mstate list) \<Rightarrow> nat \<Rightarrow> nat \<Rightarrow> nat option \<Rightarrow> bool \<Rightarrow> mstate
    \<Rightarrow> mstate list" where
  "rep m 0 lo hi greedy st = (if lo = 0 then [st] else [])"
| "rep m (Suc fuel) lo hi greedy st =
     (let more = (if hi = Some 0 then []
                  else concat (map (rep m fuel (lo - 1) (map_option (\<lambda>h. h - 1) hi) greedy)
                         (filter (\<lambda>st'. length (fst st') < length (fst st)) (m st))));
          stop = (if lo = 0 then [st] else [])
      in if greedy then more @ stop else stop @ more)"

fun rmatch :: "bool \<Rightarrow> re \<Rightarrow> mstate \<Rightarrow> mstate list" where
  "rmatch ic Eps st = [st]"
| "rmatch ic (Lit c) (s, g) =
     (case s of [] \<Rightarrow> []
      | x # xs \<Rightarrow>
          (if (if ic then py_lower_char x = py_lower_char c else x = c) then [(xs, g)] else []))"
| "rmatch ic (Cls neg items) (s, g) =
     (case s of [] \<Rightarrow> []
      | x # xs \<Rightarrow> (if cls_has ic items x \<noteq> neg then [(xs, g)] else []))"
| "rmatch ic Dot (s, g) = (case s of [] \<Rightarrow> [] | x # xs \<Rightarrow> [(xs, g)])"
| "rmatch ic (Seq a b) st = concat (map (rmatch ic b) (rmatch ic a st))"
| "rmatch ic (Rep r lo hi greedy) st = rep (rmatch ic r) (length (fst st)) lo hi greedy st"
| "rmatch ic (Grp r) (s, g) =
     map (\<lambda>(s', _). (s', Some (take (length s - length s') s))) (rmatch ic r (s, g))"

fun re_search :: "bool \<Rightarrow> re \<Rightarrow> string \<Rightarrow> (string \<times> string option) option" where
  \<comment> \<open>\<open>re.search\<close>: the first match at the leftmost position; \<open>(group(0), group(1))\<close>\<close>
  "re_search ic r s =
     (case rmatch ic r (s, None) of
        (s', g) # _ \<Rightarrow> Some (take (length s - length s') s, g)
      | [] \<Rightarrow> (case s of [] \<Rightarrow> None | _ # t \<Rightarrow> re_search ic r t))"

declare re_search.simps [simp del]

definition colon_space :: re where
  \<comment> \<open>\<open>[:\s]*\<close>\<close>
  "colon_space = re_star (Cls False [CChar CHR '':'', CSpace])"

definition rest_of_line :: re where
  \<comment> \<open>\<open>([^\n\r]+)\<close>\<close>
  "rest_of_line = Grp (re_plus (Cls True [CChar (CHR 0x0A), CChar (CHR 0x0D)]))"

definition digit :: re where
  \<comment> \<open>\<open>[0-9]\<close>\<close>
  "digit = Cls False [CRange CHR ''0'' CHR ''9'']"

definition amount :: re where
  \<comment> \<open>\<open>([0-9,]+\.?[0-9]*)\<close>\<close>
  "amount = Grp (seqs [re_plus (Cls False [CRange CHR ''0'' CHR ''9'', CChar CHR '','']),
                       re_opt (Lit CHR ''.''), re_star digit])"

definition invoice_patterns :: "re list" where
  "invoice_patterns =
     [seqs [lit ''Invoice Number'', colon_space, rest_of_line],
      seqs [lit ''Invoice'', colon_space, re_opt (Lit CHR ''#''),
            Grp (re_plus (Cls False [CRange CHR ''0'' CHR ''9'', CRange CHR ''A'' CHR ''Z'',
                                     CRange CHR ''a'' CHR ''z'', CChar CHR ''-'']))],
      seqs [lit ''Invoice ID'', colon_space, rest_of_line]]"

definition date_patterns :: "re list" where
  "date_patterns =
     [seqs [lit ''Invoice Date'', colon_space, rest_of_line],
      seqs [lit ''Date'', colon_space,
            Grp (seqs [re_times digit 1 2, Cls False [CChar CHR ''-'', CChar CHR ''/''],
                       re_times digit 1 2, Cls False [CChar CHR ''-'', CChar CHR ''/''],
                       re_times digit 2 4])],
      seqs [lit ''Date'', colon_space,
            Grp (seqs [re_times digit 1 2, Lit CHR ''-'',
                       re_times (Cls False [CRange CHR ''A'' CHR ''Z'', CRange CHR ''a'' CHR ''z'']) 3 3,
                       Lit CHR ''-'', re_times digit 2 4])]]"

definition vendor_patterns :: "re list" where
  "vendor_patterns =
     [seqs [lit ''Vendor Name'', colon_space, rest_of_line],
      seqs [lit ''Company'', colon_space, rest_of_line],
      seqs [lit ''From'', colon_space, rest_of_line]]"

definition total_patterns :: "re list" where
  "total_patterns =
     [seqs [lit ''Total Amount'', colon_space, amount],
      seqs [lit ''Total'', colon_space, amount],
      seqs [lit ''Amount'', colon_space, amount]]"

definition currency_pattern :: re where
  \<comment> \<open>\<open>Currency[:\s]*([A-Z]{3})\<close>\<close>
  "currency_pattern =
     seqs [lit ''Currency'', colon_space, Grp (re_times (Cls False [CRange CHR ''A'' CHR ''Z'']) 3 3)]"

definition fence_pattern :: re where
  \<comment> \<open>the fenced block: three backquotes, \<open>json\s*\n(.*?)\n\<close>, three backquotes; DOTALL\<close>
  "fence_pattern =
     seqs [lit [CHR 0x60, CHR 0x60, CHR 0x60], lit ''json'', re_star (Cls False [CSpace]),
           Lit (CHR 0x0A), Grp (re_lazy_star Dot), Lit (CHR 0x0A),
           lit [CHR 0x60, CHR 0x60, CHR 0x60]]"

definition no_brace :: re where
  \<comment> \<open>\<open>[^{}]*\<close>\<close>
  "no_brace = re_star (Cls True [CChar CHR ''{'', CChar CHR ''}''])"

definition brace_pattern :: re where
  \<comment> \<open>\<open>\{[^{}]*(?:\{[^{}]*\}[^{}]*)*\}\<close>\<close>
  "brace_pattern =
     seqs [Lit CHR ''{'', no_brace,
           re_star (seqs [Lit CHR ''{'', no_brace, Lit CHR ''}'', no_brace]),
           Lit CHR ''}'']"

section \<open>src/models/__init__.py\<close>

text \<open>
  Python values of mixed type (the values of the fallback dictionary) are a datatype;
  \<open>!=\<close> between them is inequality of the datatype, since a \<open>str\<close>, a \<open>float\<close> and a
  \<open>list\<close> are never equal to each other. A \<open>float\<close> is modelled by the rational it
  stands for: the model leaves rounding to a double out.
\<close>

datatype pyval = PStr string | PFloat rat | PList "pyval list"

type_synonym 'v pydict = "(string \<times> 'v) list"

fun dict_set :: "string \<Rightarrow> 'v \<Rightarrow> 'v pydict \<Rightarrow> 'v pydict" where
  \<comment> \<open>\<open>d[k] = v\<close>: an existing key keeps its place, a new key goes last\<close>
  "dict_set k v [] = [(k, v)]"
| "dict_set k v ((k', v') # d) = (if k = k' then (k, v) # d else (k', v') # dict_set k v d)"

definition dict_get :: "'v pydict \<Rightarrow> string \<Rightarrow> 'v option" where
  "dict_get d k = map_of d k"

definition setdefault :: "string \<Rightarrow> 'v \<Rightarrow> 'v pydict \<Rightarrow> 'v pydict" where
  "setdefault k v d = (case dict_get d k of None \<Rightarrow> dict_set k v d | Some _ \<Rightarrow> d)"

definition dict_values :: "'v pydict \<Rightarrow> 'v list" where
  "dict_values d = map snd d"

datatype ProcessingStatus = PENDING | PROCESSING | SUCCESS | FAILED | RETRY

record InvoiceData =
  invoice_number :: "string option"
  date :: "string option"
  due_date :: "string option"
  vendor_name :: "string option"
  vendor_address :: "string option"
  customer_name :: "string option"
  customer_address :: "string option"
  total_amount :: "rat option"
  tax_amount :: "rat option"
  subtotal :: "rat option"
  currency :: "string option"
  line_items :: "pyval list"
  payment_terms :: "string option"
  invoice_notes :: "string option"   \<comment> \<open>the field \<open>notes\<close>\<close>

text \<open>
  Exceptions are values. The messages of the exceptions the sources raise themselves
  are kept with their data; \<open>Raised\<close> is an exception of a library call, with its text.
\<close>

datatype exn =
    SizeExceeded rat int
  | ModelNotAvailable
  | AITimeout int
  | FileTimeout int
  | NoValidJSON
  | InvalidJSON string
  | Raised string

definition opt_str :: "pyval pydict \<Rightarrow> string \<Rightarrow> exn + string option" where
  \<comment> \<open>an \<open>Optional[str]\<close> field of a keyword dictionary\<close>
  "opt_str d k =
     (case dict_get d k of
        None \<Rightarrow> Inr None
      | Some (PStr x) \<Rightarrow> Inr (Some x)
      | Some _ \<Rightarrow> Inl (Raised (''validation error for InvoiceData: '' @ k)))"

definition opt_float :: "pyval pydict \<Rightarrow> string \<Rightarrow> exn + rat option" where
  \<comment> \<open>an \<open>Optional[float]\<close> field of a keyword dictionary\<close>
  "opt_float d k =
     (case dict_get d k of
        None \<Rightarrow> Inr None
      | Some (PFloat x) \<Rightarrow> Inr (Some x)
      | Some _ \<Rightarrow> Inl (Raised (''validation error for InvoiceData: '' @ k)))"

definition list_field :: "pyval pydict \<Rightarrow> string \<Rightarrow> exn + pyval list" where
  "list_field d k =
     (case dict_get d k of
        None \<Rightarrow> Inr []
      | Some (PList xs) \<Rightarrow> Inr xs
      | Some _ \<Rightarrow> Inl (Raised (''validation error for InvoiceData: '' @ k)))"

definition bind_exn :: "exn + 'a \<Rightarrow> ('a \<Rightarrow> exn + 'b) \<Rightarrow> exn + 'b" where
  \<comment> \<open>one statement after another: the first exception ends the sequence\<close>
  "bind_exn x f = (case x of Inl e \<Rightarrow> Inl e | Inr a \<Rightarrow> f a)"

definition InvoiceData_of :: "pyval pydict \<Rightarrow> exn + InvoiceData" where
  \<comment> \<open>\<open>InvoiceData(**d)\<close> for a dictionary of strings, floats and lists\<close>
  "InvoiceData_of d =
     bind_exn (opt_str d ''invoice_number'') (\<lambda>a1.
     bind_exn (opt_str d ''date'') (\<lambda>a2.
     bind_exn (opt_str d ''due_date'') (\<lambda>a3.
     bind_exn (opt_str d ''vendor_name'') (\<lambda>a4.
     bind_exn (opt_str d ''vendor_address'') (\<lambda>a5.
     bind_exn (opt_str d ''customer_name'') (\<lambda>a6.
     bind_exn (opt_str d ''customer_address'') (\<lambda>a7.
     bind_exn (opt_float d ''total_amount'') (\<lambda>a8.
     bind_exn (opt_float d ''tax_amount'') (\<lambda>a9.
     bind_exn (opt_float d ''subtotal'') (\<lambda>a10.
     bind_exn (opt_str d ''currency'') (\<lambda>a11.
     bind_exn (list_field d ''line_items'') (\<lambda>a12.
     bind_exn (opt_str d ''payment_terms'') (\<lambda>a13.
     bind_exn (opt_str d ''notes'') (\<lambda>a14.
     Inr \<lparr>invoice_number = a1, date = a2, due_date = a3, vendor_name = a4,
          vendor_address = a5, customer_name = a6, customer_address = a7,
          total_amount = a8, tax_amount = a9, subtotal = a10, currency = a11,
          line_items = a12, payment_terms = a13, invoice_notes = a14\<rparr>))))))))))))))"

section \<open>src/services/invoice_processor.py: the response parser\<close>

definition is_digit :: "char \<Rightarrow> bool" where
  "is_digit c = ((48::nat) \<le> of_char c \<and> (of_char c :: nat) \<le> 57)"

definition digits_value :: "string \<Rightarrow> nat" where
  "digits_value ds = foldl (\<lambda>a c. 10 * a + (of_char c - 48)) 0 ds"

definition py_float :: "string \<Rightarrow> rat option" where
  \<comment> \<open>\<open>float(s)\<close> on what the amount pattern leaves once the commas are gone: digits
      with at most one dot. \<open>None\<close> is ValueError: no digit at all.\<close>
  "py_float s =
     (let ip = takeWhile is_digit s; rest = dropWhile is_digit s
      in case rest of
           [] \<Rightarrow> (if ip = [] then None else Some (of_nat (digits_value ip)))
         | c # fp \<Rightarrow>
             (if c = CHR ''.'' \<and> list_all is_digit fp \<and> (ip \<noteq> [] \<or> fp \<noteq> [])
              then Some (of_nat (digits_value ip) + of_nat (digits_value fp) / 10 ^ length fp)
              else None))"

definition no_group :: exn where
  \<comment> \<open>\<open>match.group(1)\<close> is \<open>None\<close> when the group took no part in the match\<close>
  "no_group = Raised ''AttributeError: 'NoneType' object has no attribute 'strip' ''"

fun search_first :: "re list \<Rightarrow> string \<Rightarrow> exn + string option" where
  \<comment> \<open>\<open>for pattern in patterns: match = re.search(...); if match: data[k] = match.group(1).strip(); break\<close>\<close>
  "search_first [] content = Inr None"
| "search_first (pattern # patterns) content =
     (case re_search True pattern content of
        None \<Rightarrow> search_first patterns content
      | Some (_, None) \<Rightarrow> Inl no_group
      | Some (_, Some g) \<Rightarrow> Inr (Some (py_strip g)))"

fun search_total :: "re list \<Rightarrow> string \<Rightarrow> exn + rat option" where
  \<comment> \<open>the loop over \<open>total_patterns\<close>: a ValueError of \<open>float\<close> goes on to the next pattern\<close>
  "search_total [] content = Inr None"
| "search_total (pattern # patterns) content =
     (case re_search True pattern content of
        None \<Rightarrow> search_total patterns content
      | Some (_, None) \<Rightarrow> Inl no_group
      | Some (_, Some g) \<Rightarrow>
          (case py_float (py_replace_char CHR '','' [] g) of
             Some x \<Rightarrow> Inr (Some x)
           | None \<Rightarrow> search_total patterns content))"

definition search_currency :: "string \<Rightarrow> exn + string option" where
  "search_currency content =
     (case re_search True currency_pattern content of
        None \<Rightarrow> Inr None
      | Some (_, None) \<Rightarrow> Inl no_group
      | Some (_, Some g) \<Rightarrow> Inr (Some (py_upper g)))"

definition put :: "string \<Rightarrow> 'v option \<Rightarrow> 'v pydict \<Rightarrow> 'v pydict" where
  \<comment> \<open>the assignment \<open>data[k] = v\<close> under \<open>if match:\<close>\<close>
  "put k v d = (case v of None \<Rightarrow> d | Some x \<Rightarrow> dict_set k x d)"

definition with_defaults :: "pyval pydict \<Rightarrow> pyval pydict" where
  \<comment> \<open>the six \<open>data.setdefault\<close> lines\<close>
  "with_defaults data =
     setdefault ''line_items'' (PList [])
       (setdefault ''currency'' (PStr ''USD'')
         (setdefault ''total_amount'' (PFloat 0)
           (setdefault ''vendor_name'' (PStr ''UNKNOWN'')
             (setdefault ''date'' (PStr ''UNKNOWN'')
               (setdefault ''invoice_number'' (PStr ''UNKNOWN'') data)))))"

definition any_non_sentinel :: "pyval pydict \<Rightarrow> bool" where
  \<comment> \<open>\<open>any(v != 'UNKNOWN' and v != 0.0 for v in data.values())\<close>\<close>
  "any_non_sentinel data =
     list_ex (\<lambda>v. v \<noteq> PStr ''UNKNOWN'' \<and> v \<noteq> PFloat 0) (dict_values data)"

definition extract_fallback_data :: "string \<Rightarrow> exn + pyval pydict option" where
  "extract_fallback_data response_content =
     bind_exn (search_first invoice_patterns response_content) (\<lambda>inv.
     bind_exn (search_first date_patterns response_content) (\<lambda>dat.
     bind_exn (search_first vendor_patterns response_content) (\<lambda>ven.
     bind_exn (search_total total_patterns response_content) (\<lambda>tot.
     bind_exn (search_currency response_content) (\<lambda>cur.
       let data = put ''currency'' (map_option PStr cur)
                    (put ''total_amount'' (map_option PFloat tot)
                      (put ''vendor_name'' (map_option PStr ven)
                        (put ''date'' (map_option PStr dat)
                          (put ''invoice_number'' (map_option PStr inv) []))));
           data = with_defaults data
       in Inr (if any_non_sentinel data then Some data else None))))))"

text \<open>
  \<open>json.loads\<close> followed by \<open>InvoiceData(**...)\<close> is library code: the parser takes it
  as the parameter \<open>decode\<close>, which tells a JSONDecodeError from any other exception.
\<close>

datatype decode_outcome = JSONDecodeError string | DecodeRaised string | Decoded InvoiceData

definition fallback_after_decode_error :: "string \<Rightarrow> string \<Rightarrow> exn + InvoiceData" where
  \<comment> \<open>the handler of JSONDecodeError: an exception of the fallback is logged and dropped\<close>
  "fallback_after_decode_error msg response_content =
     (case extract_fallback_data response_content of
        Inr (Some fallback_data) \<Rightarrow>
          (case InvoiceData_of fallback_data of
             Inr invoice_data \<Rightarrow> Inr invoice_data
           | Inl _ \<Rightarrow> Inl (InvalidJSON msg))
      | _ \<Rightarrow> Inl (InvalidJSON msg))"

definition parse_json_str :: "(string \<Rightarrow> decode_outcome) \<Rightarrow> string \<Rightarrow> string \<Rightarrow> exn + InvoiceData" where
  "parse_json_str decode json_str response_content =
     (case decode json_str of
        Decoded invoice_data \<Rightarrow> Inr invoice_data
      | DecodeRaised msg \<Rightarrow> Inl (Raised msg)
      | JSONDecodeError msg \<Rightarrow> fallback_after_decode_error msg response_content)"

definition parse_response :: "(string \<Rightarrow> decode_outcome) \<Rightarrow> string \<Rightarrow> exn + InvoiceData" where
  \<comment> \<open>the inner \<open>try\<close> of \<open>process_invoice_image\<close>, from the response text on\<close>
  "parse_response decode response_content =
     (case re_search False fence_pattern response_content of
        Some (_, Some g) \<Rightarrow> parse_json_str decode (py_strip g) response_content
      | Some (_, None) \<Rightarrow> Inl no_group
      | None \<Rightarrow>
          (case re_search False brace_pattern response_content of
             Some (g0, _) \<Rightarrow> parse_json_str decode (py_strip g0) response_content
           | None \<Rightarrow>
               (case extract_fallback_data response_content of
                  Inl e \<Rightarrow> Inl e
                | Inr (Some fallback_data) \<Rightarrow> InvoiceData_of fallback_data
                | Inr None \<Rightarrow> Inl NoValidJSON)))"

section \<open>Clock, settings and the service state\<close>

record datetime =
  dt_year :: nat
  dt_month :: nat
  dt_day :: nat
  dt_hour :: nat
  dt_minute :: nat
  dt_second :: nat
  dt_microsecond :: nat

definition zpad :: "nat \<Rightarrow> nat \<Rightarrow> string" where
  \<comment> \<open>a decimal number padded with zeros to a width, as \<open>%02d\<close> does\<close>
  "zpad w n = replicate (w - length (str_nat n)) CHR ''0'' @ str_nat n"

definition isoformat :: "datetime \<Rightarrow> string" where
  \<comment> \<open>\<open>datetime.isoformat()\<close> of a naive datetime\<close>
  "isoformat d =
     zpad 4 (dt_year d) @ ''-'' @ zpad 2 (dt_month d) @ ''-'' @ zpad 2 (dt_day d) @ ''T'' @
     zpad 2 (dt_hour d) @ '':'' @ zpad 2 (dt_minute d) @ '':'' @ zpad 2 (dt_second d) @
     (if dt_microsecond d = 0 then [] else ''.'' @ zpad 6 (dt_microsecond d))"

definition strftime_suffix :: "datetime \<Rightarrow> string" where
  \<comment> \<open>\<open>strftime("%Y%m%d_%H%M%S")\<close>\<close>
  "strftime_suffix d =
     zpad 4 (dt_year d) @ zpad 2 (dt_month d) @ zpad 2 (dt_day d) @ ''_'' @
     zpad 2 (dt_hour d) @ zpad 2 (dt_minute d) @ zpad 2 (dt_second d)"

definition str_int :: "int \<Rightarrow> string" where
  "str_int i = (if i < 0 then ''-'' @ str_nat (nat (- i)) else str_nat (nat i))"

definition fmt_2f :: "rat \<Rightarrow> string" where
  \<comment> \<open>\<open>f"{x:.2f}"\<close> for \<open>x \<ge> 0\<close>: two decimals, ties to even\<close>
  "fmt_2f x =
     (let n = nat \<lfloor>x * 100\<rfloor>;
          r = x * 100 - of_nat n;
          m = (if 1 / 2 < r \<or> (r = 1 / 2 \<and> odd n) then n + 1 else n)
      in str_nat (m div 100) @ ''.'' @ zpad 2 (m mod 100))"

fun str_of_exn :: "exn \<Rightarrow> string" where
  \<comment> \<open>\<open>str(e)\<close>\<close>
  "str_of_exn (SizeExceeded file_size_mb max_mb) =
     ''File size ('' @ fmt_2f file_size_mb @ ''MB) exceeds maximum allowed size ('' @
     str_int max_mb @ ''MB)''"
| "str_of_exn ModelNotAvailable = ''AI model not available''"
| "str_of_exn (AITimeout n) = ''AI processing timeout after '' @ str_int n @ '' seconds''"
| "str_of_exn (FileTimeout n) = ''File processing timeout after '' @ str_int n @ '' seconds''"
| "str_of_exn NoValidJSON = ''No valid JSON found in AI response''"
| "str_of_exn (InvalidJSON msg) = ''Invalid JSON response from AI model: '' @ msg"
| "str_of_exn (Raised msg) = msg"

subsection \<open>src/utils/helpers.py, the functions that read the clock or the file system\<close>

definition generate_file_id :: "(string \<Rightarrow> string) \<Rightarrow> datetime \<Rightarrow> string \<Rightarrow> string \<Rightarrow> string" where
  \<comment> \<open>\<open>md5\<close> is \<open>hashlib.md5(...).hexdigest()\<close>; \<open>now\<close> and \<open>uuid4\<close> are read at the call\<close>
  "generate_file_id md5 now uuid4 filename =
     (let timestamp = isoformat now;
          content = filename @ ''_'' @ timestamp @ ''_'' @ uuid4
      in take 16 (md5 content))"

definition create_timestamped_filename :: "datetime \<Rightarrow> string \<Rightarrow> string option \<Rightarrow> string" where
  "create_timestamped_filename now original_filename suffix =
     (let p = Path_of original_filename;
          timestamp = (case suffix of
                         Some s \<Rightarrow> (if s \<noteq> [] then s else strftime_suffix now)
                       | None \<Rightarrow> strftime_suffix now)
      in path_stem p @ ''_'' @ timestamp @ path_suffix p)"

definition get_file_size_mb :: "filesystem \<Rightarrow> nat \<Rightarrow> path \<Rightarrow> rat" where
  \<comment> \<open>\<open>st_size\<close> is \<open>file_path.stat().st_size\<close>, read when the file exists\<close>
  "get_file_size_mb fs st_size file_path =
     (if path_exists fs file_path then of_nat st_size / (1024 * 1024) else 0)"

record ProcessingResult =
  file_id :: string
  original_filename :: string
  processed_filename :: string
  status :: ProcessingStatus
  invoice_data :: "InvoiceData option"
  error_message :: "string option"
  processing_time :: "rat option"
  created_at :: datetime
  updated_at :: datetime

record SystemStats =
  total_processed :: int
  successful :: int
  failed :: int
  pending :: int
  processing :: int
  average_processing_time :: rat
  uptime :: string

definition SystemStats_init :: SystemStats where
  \<comment> \<open>\<open>SystemStats()\<close>: the defaults of the fields\<close>
  "SystemStats_init =
     \<lparr>total_processed = 0, successful = 0, failed = 0, pending = 0, processing = 0,
      average_processing_time = 0, uptime = []\<rparr>"

record Settings =
  max_file_size_mb :: int
  supported_formats_list :: "string list"
  batch_size :: int
  incoming_path :: path
  generated_path :: path
  ai_processing_timeout_seconds :: int
  file_processing_timeout_seconds :: int

text \<open>
  The service object. \<open>llm\<close> tells whether the model client exists; \<open>llm_invocations\<close>
  counts the calls of \<open>self.llm.invoke\<close> (it is not a field of the source: it records
  the effect on the model backend).
\<close>

record InvoiceProcessorService =
  processing_results :: "ProcessingResult pydict"
  stats :: SystemStats
  is_processing :: bool
  llm :: bool
  llm_invocations :: nat

definition InvoiceProcessorService_init :: "bool \<Rightarrow> InvoiceProcessorService" where
  "InvoiceProcessorService_init model_ok =
     \<lparr>processing_results = [], stats = SystemStats_init, is_processing = False,
      llm = model_ok, llm_invocations = 0\<rparr>"

text \<open>
  What one call of \<open>process_single_file\<close> reads from outside the program: the clock
  (once for the id, once for each of the two timestamp defaults of the new record, once
  for the file name suffix, once at the end), the random UUID, \<open>time.time()\<close> at the
  start and at the end, the size of the file, and the outcome of each library or system
  call.
  The outer time limit can expire at any \<open>await\<close> inside \<open>process_invoice_image\<close>;
  the model places it after the call.
\<close>

datatype invoke_outcome = Responded string | InvokeTimedOut | InvokeRaised string

record call_env =
  id_now :: datetime
  id_uuid :: string
  created_now :: datetime
  constructed_now :: datetime
  start_time :: rat
  st_size :: nat
  encoded :: "string + string"
  invoked :: invoke_outcome
  outer_expired :: bool
  suffix_now :: datetime
  write_fails :: "string option"
  copy_fails :: "string option"
  unlink_fails :: "string option"
  end_time :: rat
  updated_now :: datetime

record library =
  md5_hexdigest :: "string \<Rightarrow> string"
  json_decode :: "string \<Rightarrow> decode_outcome"

section \<open>src/services/invoice_processor.py: processing one file\<close>

definition process_invoice_image ::
  "library \<Rightarrow> Settings \<Rightarrow> call_env \<Rightarrow> InvoiceProcessorService \<Rightarrow> path
    \<Rightarrow> (exn + InvoiceData) \<times> InvoiceProcessorService" where
  "process_invoice_image lib settings env self image_path =
     (if \<not> llm self then (Inl ModelNotAvailable, self)
      else case encoded env of
             Inl msg \<Rightarrow> (Inl (Raised msg), self)
           | Inr image_base64 \<Rightarrow>
               (let self = self\<lparr>llm_invocations := llm_invocations self + 1\<rparr>
                in case invoked env of
                     InvokeTimedOut \<Rightarrow>
                       (Inl (AITimeout (ai_processing_timeout_seconds settings)), self)
                   | InvokeRaised msg \<Rightarrow> (Inl (Raised msg), self)
                   | Responded response_content \<Rightarrow>
                       (parse_response (json_decode lib) response_content, self)))"

datatype begun = Cached ProcessingResult | Started ProcessingResult InvoiceProcessorService

definition begin_processing ::
  "library \<Rightarrow> call_env \<Rightarrow> InvoiceProcessorService \<Rightarrow> path \<Rightarrow> bool \<Rightarrow> begun" where
  \<comment> \<open>\<open>process_single_file\<close> up to \<open>start_time = time.time()\<close>\<close>
  "begin_processing lib env self file_path force_reprocess =
     (let fid = generate_file_id (md5_hexdigest lib) (id_now env) (id_uuid env)
                  (path_name file_path);
          result = \<lparr>file_id = fid, original_filename = path_name file_path,
                    processed_filename = [], status = PROCESSING, invoice_data = None,
                    error_message = None, processing_time = None,
                    created_at = created_now env, updated_at = constructed_now env\<rparr>;
          started = Started result
                      (self\<lparr>processing_results := dict_set fid result (processing_results self)\<rparr>)
      in if \<not> force_reprocess then
           (case dict_get (processing_results self) fid of
              Some existing_result \<Rightarrow>
                (if status existing_result = SUCCESS then Cached existing_result else started)
            | None \<Rightarrow> started)
         else started)"

definition persist_outputs ::
  "Settings \<Rightarrow> call_env \<Rightarrow> filesystem \<Rightarrow> path \<Rightarrow> (exn + string) \<times> filesystem" where
  \<comment> \<open>from \<open>timestamp_suffix = ...\<close> to \<open>file_path.unlink()\<close>; returns \<open>json_path.name\<close>\<close>
  "persist_outputs settings env fs file_path =
     (let timestamp_suffix = strftime_suffix (suffix_now env);
          json_filename = path_stem file_path @ ''_'' @ timestamp_suffix @ ''.json'';
          json_path = path_join (generated_path settings) json_filename;
          json_path = ensure_unique_filename fs json_path
      in case write_fails env of
           Some msg \<Rightarrow> (Inl (Raised msg), fs)
         | None \<Rightarrow>
             (let fs = fs @ [json_path];
                  moved_image_filename =
                    create_timestamped_filename (suffix_now env) (path_name file_path)
                      (Some timestamp_suffix);
                  moved_image_path = path_join (generated_path settings) moved_image_filename;
                  moved_image_path = ensure_unique_filename fs moved_image_path
              in case copy_fails env of
                   Some msg \<Rightarrow> (Inl (Raised msg), fs)
                 | None \<Rightarrow>
                     (let fs = fs @ [moved_image_path]
                      in case unlink_fails env of
                           Some msg \<Rightarrow> (Inl (Raised msg), fs)
                         | None \<Rightarrow> (Inr (path_name json_path), removeAll file_path fs))))"

definition run_pipeline ::
  "library \<Rightarrow> Settings \<Rightarrow> call_env \<Rightarrow> InvoiceProcessorService \<Rightarrow> filesystem \<Rightarrow> path
    \<Rightarrow> (exn + InvoiceData \<times> string) \<times> InvoiceProcessorService \<times> filesystem" where
  \<comment> \<open>the body of the \<open>try\<close> of \<open>process_single_file\<close>, up to the file system steps\<close>
  "run_pipeline lib settings env self fs file_path =
     (let file_size_mb = get_file_size_mb fs (st_size env) file_path
      in if file_size_mb > of_int (max_file_size_mb settings)
         then (Inl (SizeExceeded file_size_mb (max_file_size_mb settings)), self, fs)
         else
           (case process_invoice_image lib settings env self file_path of
              (outcome, self) \<Rightarrow>
                if outer_expired env
                then (Inl (FileTimeout (file_processing_timeout_seconds settings)), self, fs)
                else (case outcome of
                        Inl e \<Rightarrow> (Inl e, self, fs)
                      | Inr data \<Rightarrow>
                          (case persist_outputs settings env fs file_path of
                             (Inl e, fs) \<Rightarrow> (Inl e, self, fs)
                           | (Inr json_name, fs) \<Rightarrow> (Inr (data, json_name), self, fs)))))"

definition finish_processing ::
  "library \<Rightarrow> Settings \<Rightarrow> call_env \<Rightarrow> ProcessingResult \<Rightarrow> InvoiceProcessorService
    \<Rightarrow> filesystem \<Rightarrow> path \<Rightarrow> ProcessingResult \<times> InvoiceProcessorService \<times> filesystem" where
  \<comment> \<open>the \<open>try\<close> with its \<open>except Exception\<close>, and \<open>return result\<close>\<close>
  "finish_processing lib settings env result self fs file_path =
     (case run_pipeline lib settings env self fs file_path of
        (Inr (data, json_name), self, fs) \<Rightarrow>
          (let result = result\<lparr>status := SUCCESS, processed_filename := json_name,
                               invoice_data := Some data,
                               processing_time := Some (end_time env - start_time env),
                               updated_at := updated_now env\<rparr>;
               st = stats self;
               st = st\<lparr>total_processed := total_processed st + 1,
                       successful := successful st + 1\<rparr>
           in (result,
               self\<lparr>processing_results :=
                       dict_set (file_id result) result (processing_results self),
                    stats := st\<rparr>,
               fs))
      | (Inl e, self, fs) \<Rightarrow>
          (let result = result\<lparr>status := FAILED, error_message := Some (str_of_exn e),
                               processing_time := Some (end_time env - start_time env),
                               updated_at := updated_now env\<rparr>;
               st = stats self;
               st = st\<lparr>total_processed := total_processed st + 1, failed := failed st + 1\<rparr>
           in (result,
               self\<lparr>processing_results :=
                       dict_set (file_id result) result (processing_results self),
                    stats := st\<rparr>,
               fs)))"

definition process_single_file ::
  "library \<Rightarrow> Settings \<Rightarrow> call_env \<Rightarrow> InvoiceProcessorService \<Rightarrow> filesystem \<Rightarrow> path \<Rightarrow> bool
    \<Rightarrow> ProcessingResult \<times> InvoiceProcessorService \<times> filesystem" where
  "process_single_file lib settings env self fs file_path force_reprocess =
     (case begin_processing lib env self file_path force_reprocess of
        Cached existing_result \<Rightarrow> (existing_result, self, fs)
      | Started result self \<Rightarrow> finish_processing lib settings env result self fs file_path)"


section \<open>src/services/invoice_processor.py: the sweep and the statistics\<close>

text \<open>
  \<open>dirs\<close> lists the paths of the file system that are directories: \<open>is_file\<close> holds
  for the other existing paths. \<open>iterdir\<close> yields the existing paths whose parent is
  the directory.
\<close>

definition is_file :: "filesystem \<Rightarrow> path list \<Rightarrow> path \<Rightarrow> bool" where
  "is_file fs dirs p = (path_exists fs p \<and> p \<notin> set dirs)"

definition iterdir :: "filesystem \<Rightarrow> path \<Rightarrow> path list" where
  "iterdir fs d = filter (\<lambda>p. parts p \<noteq> [] \<and> path_parent p = d) fs"

definition files_to_process :: "Settings \<Rightarrow> filesystem \<Rightarrow> path list \<Rightarrow> path list" where
  \<comment> \<open>the loop that fills \<open>files_to_process\<close> in \<open>process_files\<close>\<close>
  "files_to_process settings fs dirs =
     filter (\<lambda>file_path. is_file fs dirs file_path \<and>
               py_lstrip_chars ''.'' (py_lower (path_suffix file_path))
                 \<in> set (supported_formats_list settings))
       (iterdir fs (incoming_path settings))"








definition get_statistics ::
  "Settings \<Rightarrow> filesystem \<Rightarrow> path list \<Rightarrow> InvoiceProcessorService
    \<Rightarrow> SystemStats \<times> InvoiceProcessorService" where
  "get_statistics settings fs dirs self =
     (let processing_count =
            length (filter (\<lambda>result. status result = PROCESSING)
                      (dict_values (processing_results self)));
          st = (stats self)\<lparr>processing := int processing_count,
                 pending := int (length (files_to_process settings fs dirs))\<rparr>
      in (st, self\<lparr>stats := st\<rparr>))"

section \<open>src/services/file_monitor.py\<close>




section \<open>Predicates used to state the claims\<close>

text \<open>
  \<open>per_file_error\<close> follows the claim's list of error sources: the size check, the
  missing model client, the image encoding, the model call with its time limit, the
  limit on the whole file, the parse of the response, and the three file system steps.
\<close>

definition per_file_error ::
  "library \<Rightarrow> Settings \<Rightarrow> call_env \<Rightarrow> InvoiceProcessorService \<Rightarrow> filesystem \<Rightarrow> path \<Rightarrow> bool" where
  "per_file_error lib settings env self fs file_path =
     (get_file_size_mb fs (st_size env) file_path > of_int (max_file_size_mb settings) \<or>
      \<not> llm self \<or>
      (\<exists>msg. encoded env = Inl msg) \<or>
      (\<forall>content. invoked env \<noteq> Responded content) \<or>
      outer_expired env \<or>
      (\<exists>content e. invoked env = Responded content \<and> parse_response (json_decode lib) content = Inl e) \<or>
      write_fails env \<noteq> None \<or> copy_fails env \<noteq> None \<or> unlink_fails env \<noteq> None)"

fun is_size_exceeded :: "exn \<Rightarrow> bool" where
  "is_size_exceeded (SizeExceeded _ _) = True"
| "is_size_exceeded _ = False"

section \<open>Example inputs of the concrete evaluations\<close>

text \<open>
  \<open>md5_examples\<close> holds the MD5 digests (as \<open>hashlib.md5(s.encode()).hexdigest()\<close>
  gives them) of the two strings the examples hash; \<open>decode_examples\<close> is \<open>json.loads\<close>
  with \<open>InvoiceData(**...)\<close> on the response \<open>{}\<close> of the examples.
\<close>

definition example_settings :: Settings where
  "example_settings =
     \<lparr>max_file_size_mb = 10,
      supported_formats_list = [''jpg'', ''jpeg'', ''png'', ''pdf'', ''tiff''],
      batch_size = 10,
      incoming_path = Path True [''srv'', ''incoming''],
      generated_path = Path True [''srv'', ''generated''],
      ai_processing_timeout_seconds = 1800,
      file_processing_timeout_seconds = 2400\<rparr>"

definition md5_examples :: "string \<Rightarrow> string" where
  "md5_examples s =
     (if s = ''a.jpg_2024-01-15T10:30:00.123456_123e4567-e89b-42d3-a456-426614174000''
      then ''d6a4b1b16fe171d826d3f91c1bdd1915''
      else if s = ''a.jpg_2024-01-15T10:30:07.654321_9b2d5f3c-7a1e-4c8b-b6d4-0f1e2d3c4b5a''
      then ''983cebaa61c72db8ea65856be366deff''
      else [])"

definition empty_invoice :: InvoiceData where
  "empty_invoice =
     \<lparr>invoice_number = None, date = None, due_date = None, vendor_name = None,
      vendor_address = None, customer_name = None, customer_address = None,
      total_amount = None, tax_amount = None, subtotal = None, currency = None,
      line_items = [], payment_terms = None, invoice_notes = None\<rparr>"

definition decode_examples :: "string \<Rightarrow> decode_outcome" where
  "decode_examples s =
     (if s = ''{}'' then Decoded empty_invoice else JSONDecodeError ''Expecting value'')"

definition example_library :: library where
  "example_library = \<lparr>md5_hexdigest = md5_examples, json_decode = decode_examples\<rparr>"

definition example_env1 :: call_env where
  "example_env1 =
     \<lparr>id_now = \<lparr>dt_year = 2024, dt_month = 1, dt_day = 15, dt_hour = 10, dt_minute = 30,
                dt_second = 0, dt_microsecond = 123456\<rparr>,
      id_uuid = ''123e4567-e89b-42d3-a456-426614174000'',
      created_now = \<lparr>dt_year = 2024, dt_month = 1, dt_day = 15, dt_hour = 10, dt_minute = 30,
                dt_second = 0, dt_microsecond = 123460\<rparr>,
      constructed_now = \<lparr>dt_year = 2024, dt_month = 1, dt_day = 15, dt_hour = 10,
                dt_minute = 30, dt_second = 0, dt_microsecond = 123461\<rparr>,
      start_time = 0,
      st_size = 2048,
      encoded = Inr ''/9j/4AAQ'',
      invoked = Responded ''{}'',
      outer_expired = False,
      suffix_now = \<lparr>dt_year = 2024, dt_month = 1, dt_day = 15, dt_hour = 10, dt_minute = 30,
                dt_second = 1, dt_microsecond = 600000\<rparr>,
      write_fails = None, copy_fails = None, unlink_fails = None,
      end_time = 3 / 2,
      updated_now = \<lparr>dt_year = 2024, dt_month = 1, dt_day = 15, dt_hour = 10, dt_minute = 30,
                dt_second = 1, dt_microsecond = 623456\<rparr>\<rparr>"

definition example_env2 :: call_env where
  "example_env2 =
     \<lparr>id_now = \<lparr>dt_year = 2024, dt_month = 1, dt_day = 15, dt_hour = 10, dt_minute = 30,
                dt_second = 7, dt_microsecond = 654321\<rparr>,
      id_uuid = ''9b2d5f3c-7a1e-4c8b-b6d4-0f1e2d3c4b5a'',
      created_now = \<lparr>dt_year = 2024, dt_month = 1, dt_day = 15, dt_hour = 10, dt_minute = 30,
                dt_second = 7, dt_microsecond = 654330\<rparr>,
      constructed_now = \<lparr>dt_year = 2024, dt_month = 1, dt_day = 15, dt_hour = 10,
                dt_minute = 30, dt_second = 7, dt_microsecond = 654331\<rparr>,
      start_time = 7,
      st_size = 2048,
      encoded = Inr ''/9j/4AAQ'',
      invoked = Responded ''{}'',
      outer_expired = False,
      suffix_now = \<lparr>dt_year = 2024, dt_month = 1, dt_day = 15, dt_hour = 10, dt_minute = 30,
                dt_second = 9, dt_microsecond = 100000\<rparr>,
      write_fails = None, copy_fails = None, unlink_fails = None,
      end_time = 9,
      updated_now = \<lparr>dt_year = 2024, dt_month = 1, dt_day = 15, dt_hour = 10, dt_minute = 30,
                dt_second = 9, dt_microsecond = 200000\<rparr>\<rparr>"

definition a_jpg :: path where
  "a_jpg = Path True [''srv'', ''incoming'', ''a.jpg'']"

definition example_result0 :: ProcessingResult where
  "example_result0 =
     \<lparr>file_id = ''d6a4b1b16fe171d8'', original_filename = ''a.jpg'', processed_filename = [],
      status = PROCESSING, invoice_data = None, error_message = None, processing_time = None,
      created_at = created_now example_env1, updated_at = constructed_now example_env1\<rparr>"

definition example_result1 :: ProcessingResult where
  "example_result1 =
     example_result0\<lparr>status := SUCCESS, processed_filename := ''a_20240115_103001.json'',
        invoice_data := Some empty_invoice, processing_time := Some (3 / 2),
        updated_at := updated_now example_env1\<rparr>"

definition example_service1 :: InvoiceProcessorService where
  "example_service1 =
     \<lparr>processing_results = [(''d6a4b1b16fe171d8'', example_result1)],
      stats = SystemStats_init\<lparr>total_processed := 1, successful := 1\<rparr>,
      is_processing = False, llm = True, llm_invocations = 1\<rparr>"

definition example_fs1 :: filesystem where
  "example_fs1 =
     [Path True [''srv'', ''generated'', ''a_20240115_103001.json''],
      Path True [''srv'', ''generated'', ''a_20240115_103001.jpg'']]"

definition example_result2 :: ProcessingResult where
  "example_result2 =
     \<lparr>file_id = ''983cebaa61c72db8'', original_filename = ''a.jpg'', processed_filename = [],
      status = PROCESSING, invoice_data = None, error_message = None, processing_time = None,
      created_at = created_now example_env2, updated_at = constructed_now example_env2\<rparr>"



section \<open>Properties of the extension check\<close>

lemma rfind_none: "py_rfind c s = None \<Longrightarrow> c \<notin> set s"
  by (induction s) (auto split: option.splits if_splits)

lemma rfind_some: "py_rfind c s = Some i \<Longrightarrow> i < length s \<and> s ! i = c \<and> c \<notin> set (drop (Suc i) s)"
  by (induction s arbitrary: i) (auto split: option.splits if_splits dest: rfind_none)


lemma name_suffix_shape:
  "name_suffix name = [] \<or> (\<exists>r. name_suffix name = CHR ''.'' # r \<and> r \<noteq> [] \<and> CHR ''.'' \<notin> set r)"
proof (cases "py_rfind CHR ''.'' name")
  case None
  then show ?thesis by (simp add: name_suffix_def)
next
  case (Some i)
  from rfind_some[OF Some] have i: "i < length name" "name ! i = CHR ''.''"
    "CHR ''.'' \<notin> set (drop (Suc i) name)" by auto
  show ?thesis
  proof (cases "0 < i \<and> i + 1 < length name")
    case True
    have "drop i name = name ! i # drop (Suc i) name"
      using i(1) by (simp add: Cons_nth_drop_Suc)
    with True i Some show ?thesis by (auto simp: name_suffix_def)
  next
    case False
    with Some show ?thesis by (auto simp add: name_suffix_def)
  qed
qed

lemma py_lower_char_dot: "py_lower_char c = CHR ''.'' \<longleftrightarrow> c = CHR ''.''"
proof
  assume a: "py_lower_char c = CHR ''.''"
  show "c = CHR ''.''"
  proof (rule ccontr)
    assume n: "c \<noteq> CHR ''.''"
    let ?n = "of_char c :: nat"
    from a n have r: "(65 \<le> ?n \<and> ?n \<le> 90) \<or> (192 \<le> ?n \<and> ?n \<le> 214) \<or> (216 \<le> ?n \<and> ?n \<le> 222)"
      and e: "char_of (?n + 32) = CHR ''.''"
      by (auto simp: py_lower_char_def Let_def split: if_splits)
    from e have "(of_char (char_of (?n + 32) :: char) :: nat) = of_char CHR ''.''" by simp
    then have "(?n + 32) mod 256 = 46" by simp
    with r show False by auto
  qed
next
  assume "c = CHR ''.''"
  then show "py_lower_char c = CHR ''.''" by (simp add: py_lower_char_def)
qed

lemma get_file_extension_eq:
  "get_file_extension filename = py_lower (drop 1 (path_suffix (Path_of filename)))"
proof -
  let ?n = "path_name (Path_of filename)"
  from name_suffix_shape [of ?n] show ?thesis
  proof
    assume "name_suffix ?n = []"
    then show ?thesis
      by (simp add: get_file_extension_def path_suffix_def py_lower_def py_lstrip_chars_def)
  next
    assume "\<exists>r. name_suffix ?n = CHR ''.'' # r \<and> r \<noteq> [] \<and> CHR ''.'' \<notin> set r"
    then obtain r where r: "name_suffix ?n = CHR ''.'' # r" "r \<noteq> []" "CHR ''.'' \<notin> set r"
      by blast
    from r(3) have "\<forall>c \<in> set (map py_lower_char r). c \<noteq> CHR ''.''"
      by (auto simp: py_lower_char_dot)
    then have "dropWhile (\<lambda>c. c = CHR ''.'') (map py_lower_char r) = map py_lower_char r"
      using r(2) by (cases r) auto
    with r(1) show ?thesis
      by (simp add: get_file_extension_def path_suffix_def py_lower_def py_lstrip_chars_def
          py_lower_char_dot)
  qed
qed

text \<open>
  C8. For every filename and every list of supported formats, \<open>is_supported_format\<close>
  holds exactly when the lower-cased suffix of the filename, without its leading dot, is
  in the list. \<open>INVOICE.PDF\<close> and \<open>invoice.pdf\<close> get the same answer.
\<close>

theorem is_supported_format_iff:
  "(is_supported_format filename supported_formats \<longleftrightarrow>
      py_lower (drop 1 (path_suffix (Path_of filename))) \<in> set supported_formats) \<and>
   is_supported_format ''INVOICE.PDF'' supported_formats =
     is_supported_format ''invoice.pdf'' supported_formats \<and>
   get_file_extension ''INVOICE.PDF'' = ''pdf''"
proof -
  have e1: "get_file_extension ''INVOICE.PDF'' = ''pdf''" by code_simp
  have e2: "get_file_extension ''invoice.pdf'' = ''pdf''" by code_simp
  show ?thesis
    by (simp add: is_supported_format_def e1 e2) (simp add: get_file_extension_eq)
qed

section \<open>Properties of ensure_unique_filename\<close>

lemma uniq_loop_spec:
  "path_exists fs target \<Longrightarrow>
   (\<forall>j. c0 \<le> j \<and> j < c \<longrightarrow> path_exists fs (unique_candidate orig j)) \<Longrightarrow>
   \<exists>k\<ge>c. uniq_loop fs orig target c = unique_candidate orig k \<and>
      \<not> path_exists fs (unique_candidate orig k) \<and>
      (\<forall>j. c0 \<le> j \<and> j < k \<longrightarrow> path_exists fs (unique_candidate orig j))"
proof (induction fs orig target c rule: uniq_loop.induct)
  case (1 fs original_path target_path counter)
  let ?next = "unique_candidate original_path counter"
  from "1.prems"(1) have step:
    "uniq_loop fs original_path target_path counter = uniq_loop fs original_path ?next (counter + 1)"
    by (subst uniq_loop.simps) simp
  show ?case
  proof (cases "path_exists fs ?next")
    case False
    then have "uniq_loop fs original_path ?next (counter + 1) = ?next"
      by (subst uniq_loop.simps) simp
    with step False "1.prems"(2) show ?thesis by (intro exI [of _ counter]) simp
  next
    case True
    have inv: "\<forall>j. c0 \<le> j \<and> j < counter + 1 \<longrightarrow> path_exists fs (unique_candidate original_path j)"
      using "1.prems"(2) True by (auto simp: less_Suc_eq)
    from "1.IH" [OF "1.prems"(1) True inv] obtain k where
      "k \<ge> counter + 1" "uniq_loop fs original_path ?next (counter + 1) = unique_candidate original_path k"
      "\<not> path_exists fs (unique_candidate original_path k)"
      "\<forall>j. c0 \<le> j \<and> j < k \<longrightarrow> path_exists fs (unique_candidate original_path j)"
      by blast
    with step show ?thesis by (intro exI [of _ k]) simp
  qed
qed

text \<open>
  C7. For every target path (in a finite file system) \<open>ensure_unique_filename\<close> returns a
  path that does not exist: the target itself when it is free, and otherwise the
  candidate with the least counter, counting from 1, whose name is free, the counter
  standing before the extension. With \<open>a.jpg\<close>, \<open>a_1.jpg\<close> and \<open>a_2.jpg\<close> present,
  the answer for \<open>a.jpg\<close> is \<open>a_3.jpg\<close>.
\<close>

theorem ensure_unique_filename_free:
  "\<not> path_exists fs (ensure_unique_filename fs target_path) \<and>
   (\<not> path_exists fs target_path \<longrightarrow> ensure_unique_filename fs target_path = target_path) \<and>
   (path_exists fs target_path \<longrightarrow>
      (\<exists>k\<ge>1. ensure_unique_filename fs target_path = unique_candidate target_path k \<and>
         (\<forall>j. 1 \<le> j \<and> j < k \<longrightarrow> path_exists fs (unique_candidate target_path j)))) \<and>
   ensure_unique_filename
     [Path_of ''out/a.jpg'', Path_of ''out/a_1.jpg'', Path_of ''out/a_2.jpg'']
     (Path_of ''out/a.jpg'') = Path_of ''out/a_3.jpg''"
proof -
  have general: "\<not> path_exists fs (ensure_unique_filename fs target_path) \<and>
   (\<not> path_exists fs target_path \<longrightarrow> ensure_unique_filename fs target_path = target_path) \<and>
   (path_exists fs target_path \<longrightarrow>
      (\<exists>k\<ge>1. ensure_unique_filename fs target_path = unique_candidate target_path k \<and>
         (\<forall>j. 1 \<le> j \<and> j < k \<longrightarrow> path_exists fs (unique_candidate target_path j))))"
  proof (cases "path_exists fs target_path")
    case False
    then show ?thesis by (simp add: ensure_unique_filename_def)
  next
    case True
    have "\<forall>j. (1::nat) \<le> j \<and> j < 1 \<longrightarrow> path_exists fs (unique_candidate target_path j)"
      by simp
    from uniq_loop_spec [OF True this] obtain k where
      "k \<ge> 1" "uniq_loop fs target_path target_path 1 = unique_candidate target_path k"
      "\<not> path_exists fs (unique_candidate target_path k)"
      "\<forall>j. 1 \<le> j \<and> j < k \<longrightarrow> path_exists fs (unique_candidate target_path j)"
      by blast
    with True show ?thesis by (auto simp: ensure_unique_filename_def)
  qed
  have concrete: "ensure_unique_filename
     [Path_of ''out/a.jpg'', Path_of ''out/a_1.jpg'', Path_of ''out/a_2.jpg'']
     (Path_of ''out/a.jpg'') = Path_of ''out/a_3.jpg''"
    by code_simp
  from general concrete show ?thesis by blast
qed

theorem ensure_unique_filename_free_witness:
  "path_exists [Path_of ''out/a.jpg'', Path_of ''out/a_1.jpg''] (Path_of ''out/a.jpg'') \<and>
   \<not> path_exists [Path_of ''out/a.jpg'', Path_of ''out/a_1.jpg'']
       (ensure_unique_filename [Path_of ''out/a.jpg'', Path_of ''out/a_1.jpg'']
          (Path_of ''out/a.jpg'')) \<and>
   \<not> path_exists [Path_of ''out/a.jpg''] (Path_of ''out/b.jpg'') \<and>
   ensure_unique_filename [Path_of ''out/a.jpg''] (Path_of ''out/b.jpg'') = Path_of ''out/b.jpg''"
proof -
  have ex: "path_exists [Path_of ''out/a.jpg'', Path_of ''out/a_1.jpg''] (Path_of ''out/a.jpg'')"
    by (simp add: path_exists_def)
  have nex: "\<not> path_exists [Path_of ''out/a.jpg''] (Path_of ''out/b.jpg'')"
    by code_simp
  from ex nex
    ensure_unique_filename_free [of "[Path_of ''out/a.jpg'', Path_of ''out/a_1.jpg'']"
      "Path_of ''out/a.jpg''"]
    ensure_unique_filename_free [of "[Path_of ''out/a.jpg'']" "Path_of ''out/b.jpg''"]
  show ?thesis by blast
qed

section \<open>Properties of truncate_text\<close>

lemma length_py_slice_to_nonneg:
  "0 \<le> k \<Longrightarrow> k \<le> int (length text) \<Longrightarrow> int (length (py_slice_to text k)) = k"
  by (simp add: py_slice_to_def)

text \<open>
  C10. For every text and every \<open>max_length \<ge> 3\<close> the result of \<open>truncate_text\<close> is at
  most \<open>max_length\<close> characters long and is the text itself exactly when the text is at
  most \<open>max_length\<close> long. The bound 3 is needed: for \<open>max_length < 3\<close> and a longer
  text the slice bound \<open>max_length - 3\<close> is negative, the slice counts from the end, and
  the result (which ends in the three dots) is longer than \<open>max_length\<close>.
\<close>

theorem truncate_text_length_bound:
  "(3 \<le> max_length \<longrightarrow>
      int (length (truncate_text text max_length)) \<le> max_length \<and>
      (truncate_text text max_length = text \<longleftrightarrow> int (length text) \<le> max_length)) \<and>
   (max_length < 3 \<and> max_length < int (length text) \<longrightarrow>
      max_length < int (length (truncate_text text max_length)))"
proof (intro conjI impI)
  assume m: "3 \<le> max_length"
  show "int (length (truncate_text text max_length)) \<le> max_length"
  proof (cases "int (length text) \<le> max_length")
    case True
    then show ?thesis by (simp add: truncate_text_def)
  next
    case False
    with m have "int (length (py_slice_to text (max_length - 3))) = max_length - 3"
      by (intro length_py_slice_to_nonneg) auto
    with False show ?thesis by (simp add: truncate_text_def)
  qed
  show "truncate_text text max_length = text \<longleftrightarrow> int (length text) \<le> max_length"
  proof (cases "int (length text) \<le> max_length")
    case True
    then show ?thesis by (simp add: truncate_text_def)
  next
    case False
    with m have "int (length (py_slice_to text (max_length - 3))) = max_length - 3"
      by (intro length_py_slice_to_nonneg) auto
    with False have "int (length (truncate_text text max_length)) = max_length"
      by (simp add: truncate_text_def)
    with False have "truncate_text text max_length \<noteq> text" by auto
    with False show ?thesis by simp
  qed
next
  assume "max_length < 3 \<and> max_length < int (length text)"
  then show "max_length < int (length (truncate_text text max_length))"
    by (simp add: truncate_text_def)
qed

theorem truncate_text_length_bound_witness:
  "(3::int) \<le> 5 \<and> truncate_text ''invoice'' 5 = ''in...'' \<and>
   truncate_text ''abc'' 5 = ''abc'' \<and>
   (2::int) < 3 \<and> truncate_text ''abc'' 2 = ''ab...'' \<and>
   (2::int) < int (length (truncate_text ''abc'' 2))"
  using truncate_text_length_bound [of 5 "''invoice''"]
    truncate_text_length_bound [of 2 "''abc''"]
  by (simp add: truncate_text_def py_slice_to_def)

section \<open>Properties of the response parser\<close>

lemma keys_dict_set: "fst ` set (dict_set k v d) = insert k (fst ` set d)"
proof (induction d)
  case Nil
  show ?case by simp
next
  case (Cons a d)
  obtain k' v' where a: "a = (k', v')" by (cases a)
  show ?case
  proof (cases "k = k'")
    case True
    with a show ?thesis by simp
  next
    case False
    with a Cons show ?thesis by (simp add: insert_commute)
  qed
qed

lemma keys_put: "fst ` set (put k v d) \<subseteq> insert k (fst ` set d)"
  by (cases v) (auto simp: put_def keys_dict_set)

lemma keys_setdefault: "fst ` set (setdefault k v d) = insert k (fst ` set d)"
proof (cases "map_of d k")
  case None
  then show ?thesis by (simp add: setdefault_def dict_get_def keys_dict_set)
next
  case (Some x)
  then have "(k, x) \<in> set d" by (rule map_of_SomeD)
  then have "k \<in> fst ` set d" by force
  with Some show ?thesis by (auto simp: setdefault_def dict_get_def)
qed

lemma dict_set_new: "k \<notin> fst ` set d \<Longrightarrow> dict_set k v d = d @ [(k, v)]"
  by (induction d) auto

lemma setdefault_new: "k \<notin> fst ` set d \<Longrightarrow> setdefault k v d = d @ [(k, v)]"
  by (simp add: setdefault_def dict_get_def map_of_eq_None_iff [THEN iffD2] dict_set_new)

lemma with_defaults_line_items:
  assumes "''line_items'' \<notin> fst ` set data"
  shows "PList [] \<in> set (dict_values (with_defaults data))"
proof -
  let ?inner = "setdefault ''currency'' (PStr ''USD'')
         (setdefault ''total_amount'' (PFloat 0)
           (setdefault ''vendor_name'' (PStr ''UNKNOWN'')
             (setdefault ''date'' (PStr ''UNKNOWN'')
               (setdefault ''invoice_number'' (PStr ''UNKNOWN'') data))))"
  have "''line_items'' \<notin> fst ` set ?inner"
    using assms by (simp add: keys_setdefault)
  then have "setdefault ''line_items'' (PList []) ?inner = ?inner @ [(''line_items'', PList [])]"
    by (rule setdefault_new)
  then show ?thesis by (simp add: with_defaults_def dict_values_def)
qed

lemma any_non_sentinel_with_defaults:
  assumes "''line_items'' \<notin> fst ` set data"
  shows "any_non_sentinel (with_defaults data)"
  using with_defaults_line_items [OF assms]
  by (auto simp: any_non_sentinel_def list_ex_iff)

lemma extract_fallback_data_not_None: "extract_fallback_data content \<noteq> Inr None"
proof -
  have k: "''line_items'' \<notin> fst ` set (put ''currency'' c
                    (put ''total_amount'' t
                      (put ''vendor_name'' v
                        (put ''date'' d
                          (put ''invoice_number'' i [])))))" for c t v d i
  proof -
    let ?d1 = "put ''invoice_number'' i []"
    let ?d2 = "put ''date'' d ?d1"
    let ?d3 = "put ''vendor_name'' v ?d2"
    let ?d4 = "put ''total_amount'' t ?d3"
    have 1: "''line_items'' \<notin> fst ` set ?d1" using keys_put [of "''invoice_number''" i "[]"] by auto
    have 2: "''line_items'' \<notin> fst ` set ?d2" using keys_put [of "''date''" d ?d1] 1 by auto
    have 3: "''line_items'' \<notin> fst ` set ?d3" using keys_put [of "''vendor_name''" v ?d2] 2 by auto
    have 4: "''line_items'' \<notin> fst ` set ?d4" using keys_put [of "''total_amount''" t ?d3] 3 by auto
    show ?thesis using keys_put [of "''currency''" c ?d4] 4 by auto
  qed
  show ?thesis
    by (auto simp: extract_fallback_data_def bind_exn_def Let_def
        any_non_sentinel_with_defaults [OF k] split: sum.splits)
qed

lemma noise_fallback:
  "extract_fallback_data ''Invalid JSON content'' =
     Inr (Some [(''invoice_number'', PStr ''UNKNOWN''), (''date'', PStr ''UNKNOWN''),
                (''vendor_name'', PStr ''UNKNOWN''), (''total_amount'', PFloat 0),
                (''currency'', PStr ''USD''), (''line_items'', PList [])])"
  by code_simp

lemma noise_no_json:
  "re_search False fence_pattern ''Invalid JSON content'' = None \<and>
   re_search False brace_pattern ''Invalid JSON content'' = None"
  by code_simp

lemma sentinel_record:
  "InvoiceData_of [(''invoice_number'', PStr ''UNKNOWN''), (''date'', PStr ''UNKNOWN''),
                (''vendor_name'', PStr ''UNKNOWN''), (''total_amount'', PFloat 0),
                (''currency'', PStr ''USD''), (''line_items'', PList [])] =
     Inr \<lparr>invoice_number = Some ''UNKNOWN'', date = Some ''UNKNOWN'', due_date = None,
          vendor_name = Some ''UNKNOWN'', vendor_address = None, customer_name = None,
          customer_address = None, total_amount = Some 0, tax_amount = None,
          subtotal = None, currency = Some ''USD'', line_items = [],
          payment_terms = None, invoice_notes = None\<rparr>"
  by (simp add: InvoiceData_of_def bind_exn_def opt_str_def opt_float_def list_field_def
      dict_get_def)

text \<open>
  C2. The claim is that on pure noise (no JSON to parse, no pattern matching) the parser
  signals failure, and that \<open>_extract_fallback_data\<close> returns no data exactly when
  every extracted field is a sentinel. The code does not: the defaults \<open>'USD'\<close> for
  the currency and \<open>[]\<close> for the line items are neither \<open>'UNKNOWN'\<close> nor \<open>0.0\<close>, so
  the final \<open>any(...)\<close> always holds and \<open>None\<close> is never returned. On the noise text
  of the repository's own test, \<open>Invalid JSON content\<close>, the fallback returns the
  all-sentinel dictionary and the parser returns an InvoiceData record of sentinels
  where the test expects an exception.
\<close>

theorem fallback_never_fails_on_noise:
  "extract_fallback_data response_content \<noteq> Inr None \<and>
   extract_fallback_data ''Invalid JSON content'' =
     Inr (Some [(''invoice_number'', PStr ''UNKNOWN''), (''date'', PStr ''UNKNOWN''),
                (''vendor_name'', PStr ''UNKNOWN''), (''total_amount'', PFloat 0),
                (''currency'', PStr ''USD''), (''line_items'', PList [])]) \<and>
   parse_response decode ''Invalid JSON content'' =
     Inr \<lparr>invoice_number = Some ''UNKNOWN'', date = Some ''UNKNOWN'', due_date = None,
          vendor_name = Some ''UNKNOWN'', vendor_address = None, customer_name = None,
          customer_address = None, total_amount = Some 0, tax_amount = None,
          subtotal = None, currency = Some ''USD'', line_items = [],
          payment_terms = None, invoice_notes = None\<rparr>"
proof (intro conjI)
  show "extract_fallback_data response_content \<noteq> Inr None"
    by (rule extract_fallback_data_not_None)
  show "extract_fallback_data ''Invalid JSON content'' =
     Inr (Some [(''invoice_number'', PStr ''UNKNOWN''), (''date'', PStr ''UNKNOWN''),
                (''vendor_name'', PStr ''UNKNOWN''), (''total_amount'', PFloat 0),
                (''currency'', PStr ''USD''), (''line_items'', PList [])])"
    by (rule noise_fallback)
  show "parse_response decode ''Invalid JSON content'' =
     Inr \<lparr>invoice_number = Some ''UNKNOWN'', date = Some ''UNKNOWN'', due_date = None,
          vendor_name = Some ''UNKNOWN'', vendor_address = None, customer_name = None,
          customer_address = None, total_amount = Some 0, tax_amount = None,
          subtotal = None, currency = Some ''USD'', line_items = [],
          payment_terms = None, invoice_notes = None\<rparr>"
    unfolding parse_response_def
    by (simp add: noise_no_json noise_fallback sentinel_record)
qed








section \<open>Properties of process_single_file\<close>

lemma persist_outputs_cases:
  obtains (ok) name fs' where "persist_outputs settings env fs file_path = (Inr name, fs')"
      "write_fails env = None" "copy_fails env = None" "unlink_fails env = None"
  | (err) e fs' where "persist_outputs settings env fs file_path = (Inl e, fs')"
      "write_fails env \<noteq> None \<or> copy_fails env \<noteq> None \<or> unlink_fails env \<noteq> None"
  by (cases "write_fails env"; cases "copy_fails env"; cases "unlink_fails env")
     (auto simp: persist_outputs_def Let_def)

lemma run_pipeline_fails_iff:
  "(\<exists>e. fst (run_pipeline lib settings env self fs file_path) = Inl e) \<longleftrightarrow>
   per_file_error lib settings env self fs file_path"
proof (cases "get_file_size_mb fs (st_size env) file_path > of_int (max_file_size_mb settings)")
  case True
  then show ?thesis by (simp add: run_pipeline_def per_file_error_def)
next
  case size_ok: False
  show ?thesis
  proof (cases "llm self")
    case False
    with size_ok show ?thesis
      by (simp add: run_pipeline_def per_file_error_def process_invoice_image_def)
  next
    case llm: True
    show ?thesis
    proof (cases "encoded env")
      case (Inl msg)
      with size_ok llm show ?thesis
        by (simp add: run_pipeline_def per_file_error_def process_invoice_image_def)
    next
      case enc: (Inr b64)
      show ?thesis
      proof (cases "outer_expired env")
        case True
        with size_ok show ?thesis
          by (simp add: run_pipeline_def per_file_error_def split: prod.splits)
      next
        case outer: False
        show ?thesis
        proof (cases "invoked env")
          case InvokeTimedOut
          with size_ok llm enc outer show ?thesis
            by (simp add: run_pipeline_def per_file_error_def process_invoice_image_def)
        next
          case (InvokeRaised msg)
          with size_ok llm enc outer show ?thesis
            by (simp add: run_pipeline_def per_file_error_def process_invoice_image_def)
        next
          case resp: (Responded content)
          show ?thesis
          proof (cases "parse_response (json_decode lib) content")
            case (Inl e)
            with size_ok llm enc outer resp show ?thesis
              by (simp add: run_pipeline_def per_file_error_def process_invoice_image_def)
          next
            case parsed: (Inr data)
            show ?thesis
            proof (cases rule: persist_outputs_cases [of settings env fs file_path])
              case (ok name fs')
              with size_ok llm enc outer resp parsed show ?thesis
                by (simp add: run_pipeline_def per_file_error_def process_invoice_image_def)
            next
              case (err e fs')
              with size_ok llm enc outer resp parsed show ?thesis
                by (simp add: run_pipeline_def per_file_error_def process_invoice_image_def)
            qed
          qed
        qed
      qed
    qed
  qed
qed

lemma finish_processing_failed:
  assumes "fst (run_pipeline lib settings env self fs file_path) = Inl e"
  shows "case finish_processing lib settings env result self fs file_path of
           (r, self', fs') \<Rightarrow>
             r = result\<lparr>status := FAILED, error_message := Some (str_of_exn e),
                        processing_time := Some (end_time env - start_time env),
                        updated_at := updated_now env\<rparr> \<and>
             processing_results self' =
               dict_set (file_id result) r
                 (processing_results (fst (snd (run_pipeline lib settings env self fs file_path)))) \<and>
             failed (stats self') = failed (stats self) + 1 \<and>
             total_processed (stats self') = total_processed (stats self) + 1"
proof -
  obtain self1 fs1 where rp: "run_pipeline lib settings env self fs file_path = (Inl e, self1, fs1)"
    using assms by (cases "run_pipeline lib settings env self fs file_path") auto
  have st: "stats self1 = stats self"
    using rp
    by (auto simp: run_pipeline_def process_invoice_image_def Let_def
        split: if_splits prod.splits sum.splits invoke_outcome.splits)
  show ?thesis
    by (simp add: finish_processing_def rp Let_def st)
qed

lemma dict_get_dict_set: "dict_get (dict_set k v d) k = Some v"
  by (induction d) (auto simp: dict_get_def)

lemma begin_processing_started:
  assumes "begin_processing lib env self file_path force_reprocess = Started result self0"
  shows "llm self0 = llm self" "stats self0 = stats self"
    "llm_invocations self0 = llm_invocations self"
    "status result = PROCESSING" "original_filename result = path_name file_path"
    "dict_get (processing_results self0) (file_id result) = Some result"
  using assms
  by (auto simp: begin_processing_def Let_def dict_get_dict_set split: if_splits option.splits)

lemma per_file_error_llm:
  "llm self0 = llm self \<Longrightarrow>
   per_file_error lib settings env self0 fs file_path = per_file_error lib settings env self fs file_path"
  by (simp add: per_file_error_def)

text \<open>
  C5. Every per-file error inside the pipeline (size check, image encoding, model call,
  either time limit, parse, file system steps) is caught by \<open>process_single_file\<close>:
  when the call is not answered from the cache and some step of the pipeline fails,
  the function returns normally, with the result marked \<open>FAILED\<close>, the text of the
  exception as its \<open>error_message\<close>, and a \<open>processing_time\<close>; the result is the one
  stored under its \<open>file_id\<close>, and the counters \<open>failed\<close> and \<open>total_processed\<close>
  go up by one. (\<open>except Exception\<close> does not catch a cancellation of the task, which
  is not an error of the pipeline.)
\<close>

theorem error_containment:
  assumes started: "begin_processing lib env self file_path force_reprocess = Started result self0"
    and fault: "per_file_error lib settings env self fs file_path"
  shows "\<exists>e self' fs'.
      process_single_file lib settings env self fs file_path force_reprocess =
        (result\<lparr>status := FAILED, error_message := Some (str_of_exn e),
                 processing_time := Some (end_time env - start_time env),
                 updated_at := updated_now env\<rparr>, self', fs') \<and>
      dict_get (processing_results self') (file_id result) =
        Some (result\<lparr>status := FAILED, error_message := Some (str_of_exn e),
                 processing_time := Some (end_time env - start_time env),
                 updated_at := updated_now env\<rparr>) \<and>
      failed (stats self') = failed (stats self) + 1 \<and>
      total_processed (stats self') = total_processed (stats self) + 1"
proof -
  from fault have "per_file_error lib settings env self0 fs file_path"
    using per_file_error_llm [OF begin_processing_started(1) [OF started]] by simp
  then obtain e where e: "fst (run_pipeline lib settings env self0 fs file_path) = Inl e"
    using run_pipeline_fails_iff by blast
  let ?r = "result\<lparr>status := FAILED, error_message := Some (str_of_exn e),
                 processing_time := Some (end_time env - start_time env),
                 updated_at := updated_now env\<rparr>"
  obtain r self' fs' where f:
    "finish_processing lib settings env result self0 fs file_path = (r, self', fs')"
    by (cases "finish_processing lib settings env result self0 fs file_path") auto
  from finish_processing_failed [OF e, of result] f
  have r: "r = ?r"
    and pr: "processing_results self' =
      dict_set (file_id result) r
        (processing_results (fst (snd (run_pipeline lib settings env self0 fs file_path))))"
    and fl: "failed (stats self') = failed (stats self0) + 1"
    and tp: "total_processed (stats self') = total_processed (stats self0) + 1"
    by simp_all
  have "process_single_file lib settings env self fs file_path force_reprocess = (?r, self', fs')"
    using started f r by (simp add: process_single_file_def)
  moreover have "dict_get (processing_results self') (file_id result) = Some ?r"
    using pr r by (simp add: dict_get_dict_set)
  moreover have "failed (stats self') = failed (stats self) + 1"
    "total_processed (stats self') = total_processed (stats self) + 1"
    using fl tp begin_processing_started(2) [OF started] by simp_all
  ultimately show ?thesis by blast
qed

lemma bind_exn_Inl:
  "bind_exn x f = Inl e \<Longrightarrow> x = Inl e \<or> (\<exists>a. x = Inr a \<and> f a = Inl e)"
  by (cases x) (auto simp: bind_exn_def)

lemma search_first_Inl: "search_first ps content = Inl e \<Longrightarrow> e = no_group"
  by (induction ps) (auto split: option.splits prod.splits)

lemma search_total_Inl: "search_total ps content = Inl e \<Longrightarrow> e = no_group"
  by (induction ps) (auto split: option.splits prod.splits)

lemma search_currency_Inl: "search_currency content = Inl e \<Longrightarrow> e = no_group"
  by (auto simp: search_currency_def split: option.splits prod.splits)

lemma extract_fallback_data_Inl: "extract_fallback_data content = Inl e \<Longrightarrow> e = no_group"
  unfolding extract_fallback_data_def
  by (auto dest!: bind_exn_Inl simp: Let_def
      dest: search_first_Inl search_total_Inl search_currency_Inl)

lemma opt_fields_Inl:
  "opt_str d k = Inl e \<Longrightarrow> \<not> is_size_exceeded e"
  "opt_float d k = Inl e \<Longrightarrow> \<not> is_size_exceeded e"
  "list_field d k = Inl e \<Longrightarrow> \<not> is_size_exceeded e"
  by (auto simp: opt_str_def opt_float_def list_field_def split: option.splits pyval.splits)

lemma InvoiceData_of_Inl: "InvoiceData_of d = Inl e \<Longrightarrow> \<not> is_size_exceeded e"
  unfolding InvoiceData_of_def
  by (auto dest!: bind_exn_Inl dest: opt_fields_Inl)

lemma parse_response_Inl: "parse_response dec content = Inl e \<Longrightarrow> \<not> is_size_exceeded e"
  by (auto simp: parse_response_def parse_json_str_def fallback_after_decode_error_def no_group_def
      split: option.splits prod.splits sum.splits decode_outcome.splits
      dest: extract_fallback_data_Inl InvoiceData_of_Inl)

lemma process_invoice_image_Inl:
  "fst (process_invoice_image lib settings env self p) = Inl e \<Longrightarrow> \<not> is_size_exceeded e"
  by (auto simp: process_invoice_image_def Let_def
      split: if_splits sum.splits invoke_outcome.splits dest: parse_response_Inl)

lemma persist_outputs_Inl:
  "fst (persist_outputs settings env fs p) = Inl e \<Longrightarrow> \<not> is_size_exceeded e"
  by (auto simp: persist_outputs_def Let_def split: option.splits)

lemma run_pipeline_size:
  "(\<exists>e. fst (run_pipeline lib settings env self fs file_path) = Inl e \<and> is_size_exceeded e) \<longleftrightarrow>
   get_file_size_mb fs (st_size env) file_path > of_int (max_file_size_mb settings)"
proof (cases "get_file_size_mb fs (st_size env) file_path > of_int (max_file_size_mb settings)")
  case True
  then show ?thesis by (simp add: run_pipeline_def)
next
  case False
  have "\<not> is_size_exceeded e" if "fst (run_pipeline lib settings env self fs file_path) = Inl e" for e
    using that False process_invoice_image_Inl [of lib settings env self file_path]
      persist_outputs_Inl [of settings env fs file_path]
    by (auto simp: run_pipeline_def Let_def split: prod.splits if_splits sum.splits)
  with False show ?thesis by blast
qed

lemma size_mb_exceeds:
  "path_exists fs file_path \<Longrightarrow>
   (get_file_size_mb fs n file_path > of_int m) \<longleftrightarrow> (int n > m * (1024 * 1024))"
proof -
  assume ex: "path_exists fs file_path"
  have "(of_nat n / (1024 * 1024) > (of_int m :: rat)) \<longleftrightarrow> (of_int m * (1024 * 1024) < (of_nat n :: rat))"
    by (simp add: pos_less_divide_eq)
  also have "\<dots> \<longleftrightarrow> (of_int (m * (1024 * 1024)) < (of_int (int n) :: rat))"
    by simp
  also have "\<dots> \<longleftrightarrow> m * (1024 * 1024) < int n"
    by (simp only: of_int_less_iff)
  finally show ?thesis using ex by (simp add: get_file_size_mb_def)
qed

text \<open>
  C6. For a call that is not answered from the cache, on a file that exists, the body of
  \<open>process_single_file\<close> raises the size error exactly when the size in bytes is above
  \<open>max_file_size_mb\<close> times \<open>1024 * 1024\<close>; the failure is then recorded with the size
  message and the model is not invoked. A file of exactly the maximum passes the check,
  one byte more is rejected. The size in megabytes is a Python float: below \<open>2 ^ 53\<close>
  bytes the division by \<open>1024 * 1024\<close> is exact, as the rational of the model is.
\<close>

theorem size_boundary:
  assumes started: "begin_processing lib env self file_path force_reprocess = Started result self0"
    and ex: "path_exists fs file_path"
    and small: "st_size env < 2 ^ 53"
  shows "((\<exists>e. fst (run_pipeline lib settings env self0 fs file_path) = Inl e \<and> is_size_exceeded e)
           \<longleftrightarrow> int (st_size env) > max_file_size_mb settings * (1024 * 1024)) \<and>
         (int (st_size env) > max_file_size_mb settings * (1024 * 1024) \<longrightarrow>
            (\<exists>self'. process_single_file lib settings env self fs file_path force_reprocess =
               (result\<lparr>status := FAILED,
                   error_message := Some (str_of_exn
                     (SizeExceeded (of_nat (st_size env) / (1024 * 1024)) (max_file_size_mb settings))),
                   processing_time := Some (end_time env - start_time env),
                   updated_at := updated_now env\<rparr>, self', fs) \<and>
               llm_invocations self' = llm_invocations self)) \<and>
         (int (st_size env) = max_file_size_mb settings * (1024 * 1024) \<longrightarrow>
            \<not> (\<exists>e. fst (run_pipeline lib settings env self0 fs file_path) = Inl e \<and> is_size_exceeded e)) \<and>
         (int (st_size env) = max_file_size_mb settings * (1024 * 1024) + 1 \<longrightarrow>
            (\<exists>e. fst (run_pipeline lib settings env self0 fs file_path) = Inl e \<and> is_size_exceeded e))"
proof -
  let ?big = "int (st_size env) > max_file_size_mb settings * (1024 * 1024)"
  have iff: "(\<exists>e. fst (run_pipeline lib settings env self0 fs file_path) = Inl e \<and> is_size_exceeded e)
           \<longleftrightarrow> ?big"
    using run_pipeline_size [of lib settings env self0 fs file_path] size_mb_exceeds [OF ex]
    by simp
  have rec: "\<exists>self'. process_single_file lib settings env self fs file_path force_reprocess =
               (result\<lparr>status := FAILED,
                   error_message := Some (str_of_exn
                     (SizeExceeded (of_nat (st_size env) / (1024 * 1024)) (max_file_size_mb settings))),
                   processing_time := Some (end_time env - start_time env),
                   updated_at := updated_now env\<rparr>, self', fs) \<and>
               llm_invocations self' = llm_invocations self" if big: ?big
  proof -
    from big have gt: "get_file_size_mb fs (st_size env) file_path > of_int (max_file_size_mb settings)"
      using size_mb_exceeds [OF ex] by simp
    have sz: "get_file_size_mb fs (st_size env) file_path = of_nat (st_size env) / (1024 * 1024)"
      using ex by (simp add: get_file_size_mb_def)
    have rp: "run_pipeline lib settings env self0 fs file_path =
        (Inl (SizeExceeded (of_nat (st_size env) / (1024 * 1024)) (max_file_size_mb settings)), self0, fs)"
      using gt sz by (simp add: run_pipeline_def Let_def)
    show ?thesis
      using started begin_processing_started(3) [OF started]
      by (simp add: process_single_file_def finish_processing_def rp Let_def)
  qed
  from iff rec show ?thesis by auto
qed

lemma get_statistics_average:
  "average_processing_time (fst (get_statistics settings fs dirs self)) =
     average_processing_time (stats self)"
  by (simp add: get_statistics_def Let_def)

lemma run_pipeline_stats:
  "stats (fst (snd (run_pipeline lib settings env self fs file_path))) = stats self"
  by (auto simp: run_pipeline_def process_invoice_image_def Let_def
      split: if_splits prod.splits sum.splits invoke_outcome.splits)

lemma process_single_file_average:
  "average_processing_time
     (stats (fst (snd (process_single_file lib settings env self fs file_path force_reprocess)))) =
   average_processing_time (stats self)"
proof (cases "begin_processing lib env self file_path force_reprocess")
  case (Cached r)
  then show ?thesis by (simp add: process_single_file_def)
next
  case (Started result self0)
  have s0: "stats self0 = stats self" by (rule begin_processing_started(2) [OF Started])
  obtain out self1 fs1 where rp: "run_pipeline lib settings env self0 fs file_path = (out, self1, fs1)"
    by (cases "run_pipeline lib settings env self0 fs file_path") auto
  have s1: "stats self1 = stats self0"
    using run_pipeline_stats [of lib settings env self0 fs file_path] rp by simp
  show ?thesis
    using Started rp s0 s1
    by (cases out) (auto simp: process_single_file_def finish_processing_def Let_def split: prod.splits)
qed

subsection \<open>Evaluation of the examples\<close>

lemma digit_chars:
  "char_of (48::nat) = CHR ''0''" "char_of (49::nat) = CHR ''1''" "char_of (50::nat) = CHR ''2''"
  "char_of (51::nat) = CHR ''3''" "char_of (52::nat) = CHR ''4''" "char_of (53::nat) = CHR ''5''"
  "char_of (54::nat) = CHR ''6''" "char_of (55::nat) = CHR ''7''" "char_of (56::nat) = CHR ''8''"
  "char_of (57::nat) = CHR ''9''"
  by code_simp+

lemmas eval_num = zpad_def str_nat.simps digit_chars

lemma iso1: "isoformat (id_now example_env1) = ''2024-01-15T10:30:00.123456''"
  by (simp add: isoformat_def eval_num example_env1_def)

lemma suf1: "strftime_suffix (suffix_now example_env1) = ''20240115_103001''"
  by (simp add: strftime_suffix_def eval_num example_env1_def)

lemma fid1: "generate_file_id (md5_hexdigest example_library) (id_now example_env1) (id_uuid example_env1) ''a.jpg'' = ''d6a4b1b16fe171d8''"
  by (simp add: generate_file_id_def iso1 example_library_def md5_examples_def) (simp add: example_env1_def)

lemma parse_empty_object: "parse_response decode_examples ''{}'' = Inr empty_invoice"
  by code_simp

lemma ground_digits: "str_nat 10 = ''10''" "str_nat 15 = ''15''" "zpad 2 0 = ''00''"
  by (simp_all add: eval_num)

lemma fl: "\<lfloor>(10485761 / 1048576 :: rat) * 100\<rfloor> = 1000"
  by (simp add: floor_eq_iff)

lemma fmt_one_byte_over: "fmt_2f (10485761 / 1048576) = ''10.00''"
proof -
  have n: "nat \<lfloor>(10485761 / 1048576 :: rat) * 100\<rfloor> = 1000" using fl by simp
  have r: "\<not> (1 / 2 < (10485761 / 1048576 :: rat) * 100 - of_nat 1000)" by simp
  have r2: "(10485761 / 1048576 :: rat) * 100 - of_nat 1000 \<noteq> 1 / 2" by simp
  show ?thesis
    unfolding fmt_2f_def Let_def n using r r2 by (simp add: ground_digits)
qed

lemma fmt_15: "fmt_2f 15 = ''15.00''"
proof -
  have n: "nat \<lfloor>(15 :: rat) * 100\<rfloor> = 1500" by simp
  show ?thesis unfolding fmt_2f_def Let_def n by (simp add: ground_digits)
qed

lemma path_parts_simple:
  "s \<noteq> [] \<Longrightarrow> CHR ''/'' \<notin> set s \<Longrightarrow> s \<noteq> ''.'' \<Longrightarrow> path_parts s = [s]"
  by (simp add: path_parts_def py_split_no_sep)

lemma path_join_simple:
  "s \<noteq> [] \<Longrightarrow> CHR ''/'' \<notin> set s \<Longrightarrow> s \<noteq> ''.'' \<Longrightarrow>
   path_join (Path ab ps) s = Path ab (ps @ [s])"
  by (cases s) (auto simp: path_join_def path_parts_simple)

lemma a_jpg_name: "path_name a_jpg = ''a.jpg''"
  by (simp add: a_jpg_def path_name_def)

lemma a_jpg_parts: "name_stem ''a.jpg'' = ''a''" "name_suffix ''a.jpg'' = ''.jpg''"
  "path_stem (Path_of ''a.jpg'') = ''a''" "path_suffix (Path_of ''a.jpg'') = ''.jpg''"
  by code_simp+

lemma a_jpg_stem: "path_stem a_jpg = ''a''" "path_suffix a_jpg = ''.jpg''"
  by (simp_all add: path_stem_def path_suffix_def a_jpg_name a_jpg_parts)

lemmas a_jpg_unfolded = a_jpg_name [unfolded a_jpg_def] a_jpg_stem [unfolded a_jpg_def]

lemma begin1:
  "begin_processing example_library example_env1 (InvoiceProcessorService_init True) a_jpg False =
     Started example_result0
       ((InvoiceProcessorService_init True)
          \<lparr>processing_results := [(''d6a4b1b16fe171d8'', example_result0)]\<rparr>)"
  by (simp add: begin_processing_def fid1 a_jpg_name Let_def example_result0_def dict_get_def
      InvoiceProcessorService_init_def)

lemma env1_fields:
  "st_size example_env1 = 2048" "encoded example_env1 = Inr ''/9j/4AAQ''"
  "invoked example_env1 = Responded ''{}''" "outer_expired example_env1 = False"
  "write_fails example_env1 = None" "copy_fails example_env1 = None"
  "unlink_fails example_env1 = None" "start_time example_env1 = 0" "end_time example_env1 = 3 / 2"
  by (simp_all add: example_env1_def)

lemma settings_fields:
  "max_file_size_mb example_settings = 10"
  "generated_path example_settings = Path True [''srv'', ''generated'']"
  "incoming_path example_settings = Path True [''srv'', ''incoming'']"
  "batch_size example_settings = 10"
  "supported_formats_list example_settings = [''jpg'', ''jpeg'', ''png'', ''pdf'', ''tiff'']"
  by (simp_all add: example_settings_def)

lemma library_fields:
  "md5_hexdigest example_library = md5_examples" "json_decode example_library = decode_examples"
  by (simp_all add: example_library_def)

lemma persist1:
  "persist_outputs example_settings example_env1 [a_jpg] a_jpg =
     (Inr ''a_20240115_103001.json'',
      [Path True [''srv'', ''generated'', ''a_20240115_103001.json''],
       Path True [''srv'', ''generated'', ''a_20240115_103001.jpg'']])"
  by (simp add: persist_outputs_def suf1 a_jpg_unfolded a_jpg_parts Let_def
      create_timestamped_filename_def env1_fields settings_fields path_join_simple
      ensure_unique_filename_def path_exists_def a_jpg_def path_name_def)

lemma run_example:
  assumes "llm self" "path_exists fs a_jpg"
    and "st_size env \<le> 10485760" 
    and "encoded env = Inr img" "invoked env = Responded ''{}''" "\<not> outer_expired env"
    and "persist_outputs example_settings env fs a_jpg = (Inr name, fs')"
  shows "run_pipeline example_library example_settings env self fs a_jpg =
     (Inr (empty_invoice, name), self\<lparr>llm_invocations := llm_invocations self + 1\<rparr>, fs')"
  using assms
  by (simp add: run_pipeline_def process_invoice_image_def get_file_size_mb_def Let_def
      settings_fields library_fields parse_empty_object)

lemma finish_example:
  assumes "run_pipeline lib settings env self fs p = (Inr (data, name), self1, fs1)"
  shows "finish_processing lib settings env result self fs p =
     (result\<lparr>status := SUCCESS, processed_filename := name, invoice_data := Some data,
              processing_time := Some (end_time env - start_time env),
              updated_at := updated_now env\<rparr>,
      self1\<lparr>processing_results :=
               dict_set (file_id result)
                 (result\<lparr>status := SUCCESS, processed_filename := name, invoice_data := Some data,
                    processing_time := Some (end_time env - start_time env),
                    updated_at := updated_now env\<rparr>) (processing_results self1),
             stats := (stats self1)\<lparr>total_processed := total_processed (stats self1) + 1,
                        successful := successful (stats self1) + 1\<rparr>\<rparr>,
      fs1)"
  using assms by (simp add: finish_processing_def Let_def)

lemma process1:
  "process_single_file example_library example_settings example_env1
       (InvoiceProcessorService_init True) [a_jpg] a_jpg False =
     (example_result1, example_service1, example_fs1)"
proof -
  let ?self0 = "(InvoiceProcessorService_init True)
          \<lparr>processing_results := [(''d6a4b1b16fe171d8'', example_result0)]\<rparr>"
  have rp: "run_pipeline example_library example_settings example_env1 ?self0 [a_jpg] a_jpg =
     (Inr (empty_invoice, ''a_20240115_103001.json''),
      ?self0\<lparr>llm_invocations := llm_invocations ?self0 + 1\<rparr>, example_fs1)"
    by (rule run_example [where img = "''/9j/4AAQ''"])
       (simp_all add: env1_fields persist1 example_fs1_def InvoiceProcessorService_init_def
         path_exists_def)
  show ?thesis
    unfolding process_single_file_def begin1
    by (simp add: finish_example [OF rp] env1_fields)
       (simp add: example_result1_def example_service1_def example_result0_def
         InvoiceProcessorService_init_def SystemStats_init_def)
qed

lemma begin_processing_st_size:
  "begin_processing lib (env\<lparr>st_size := n\<rparr>) self p force = begin_processing lib env self p force"
  by (simp add: begin_processing_def)

lemma persist_outputs_st_size:
  "persist_outputs settings (env\<lparr>st_size := n\<rparr>) fs p = persist_outputs settings env fs p"
  by (cases "write_fails env"; cases "copy_fails env"; cases "unlink_fails env")
     (simp_all add: persist_outputs_def Let_def)

lemma begin_sized:
  "begin_processing example_library (example_env1\<lparr>st_size := n\<rparr>)
       (InvoiceProcessorService_init True) a_jpg False =
     Started example_result0
       ((InvoiceProcessorService_init True)
          \<lparr>processing_results := [(''d6a4b1b16fe171d8'', example_result0)]\<rparr>)"
  by (simp add: begin_processing_st_size begin1)

lemma persist_sized:
  "persist_outputs example_settings (example_env1\<lparr>st_size := n\<rparr>) [a_jpg] a_jpg =
     (Inr ''a_20240115_103001.json'', example_fs1)"
  by (simp add: persist_outputs_st_size persist1 example_fs1_def)

lemma exact_size_succeeds:
  "status (fst (process_single_file example_library example_settings
       (example_env1\<lparr>st_size := 10485760\<rparr>) (InvoiceProcessorService_init True) [a_jpg] a_jpg False))
     = SUCCESS"
proof -
  let ?self0 = "(InvoiceProcessorService_init True)
          \<lparr>processing_results := [(''d6a4b1b16fe171d8'', example_result0)]\<rparr>"
  have rp: "run_pipeline example_library example_settings (example_env1\<lparr>st_size := 10485760\<rparr>)
       ?self0 [a_jpg] a_jpg =
     (Inr (empty_invoice, ''a_20240115_103001.json''),
      ?self0\<lparr>llm_invocations := llm_invocations ?self0 + 1\<rparr>, example_fs1)"
    by (rule run_example [where img = "''/9j/4AAQ''"])
       (simp_all add: env1_fields persist_sized InvoiceProcessorService_init_def path_exists_def)
  show ?thesis
    unfolding process_single_file_def begin_sized
    by (simp add: finish_example [OF rp])
qed

lemma str_int_10: "str_int 10 = ''10''"
  by (simp add: str_int_def ground_digits)

lemma one_byte_over_message:
  "error_message (fst (process_single_file example_library example_settings
       (example_env1\<lparr>st_size := 10485761\<rparr>) (InvoiceProcessorService_init True) [a_jpg] a_jpg False))
     = Some ''File size (10.00MB) exceeds maximum allowed size (10MB)''"
  unfolding process_single_file_def begin_sized
  by (simp add: finish_processing_def run_pipeline_def get_file_size_mb_def path_exists_def
      settings_fields Let_def fmt_one_byte_over str_int_10)

lemma oversize_message:
  "error_message (fst (process_single_file example_library example_settings
       (example_env1\<lparr>st_size := 15728640\<rparr>) (InvoiceProcessorService_init True) [a_jpg] a_jpg False))
     = Some ''File size (15.00MB) exceeds maximum allowed size (10MB)''"
  unfolding process_single_file_def begin_sized
  by (simp add: finish_processing_def run_pipeline_def get_file_size_mb_def path_exists_def
      settings_fields Let_def fmt_15 str_int_10)

theorem error_containment_witness:
  "begin_processing example_library (example_env1\<lparr>st_size := 15728640\<rparr>)
       (InvoiceProcessorService_init True) a_jpg False =
     Started example_result0
       ((InvoiceProcessorService_init True)
          \<lparr>processing_results := [(''d6a4b1b16fe171d8'', example_result0)]\<rparr>) \<and>
   per_file_error example_library example_settings (example_env1\<lparr>st_size := 15728640\<rparr>)
       (InvoiceProcessorService_init True) [a_jpg] a_jpg \<and>
   (\<exists>e self' fs'.
      process_single_file example_library example_settings (example_env1\<lparr>st_size := 15728640\<rparr>)
          (InvoiceProcessorService_init True) [a_jpg] a_jpg False =
        (example_result0\<lparr>status := FAILED, error_message := Some (str_of_exn e),
                 processing_time := Some (end_time example_env1 - start_time example_env1),
                 updated_at := updated_now example_env1\<rparr>, self', fs') \<and>
      failed (stats self') = 1) \<and>
   error_message (fst (process_single_file example_library example_settings
       (example_env1\<lparr>st_size := 15728640\<rparr>) (InvoiceProcessorService_init True) [a_jpg] a_jpg False))
     = Some ''File size (15.00MB) exceeds maximum allowed size (10MB)''"
proof -
  have fault: "per_file_error example_library example_settings (example_env1\<lparr>st_size := 15728640\<rparr>)
       (InvoiceProcessorService_init True) [a_jpg] a_jpg"
    by (simp add: per_file_error_def get_file_size_mb_def path_exists_def settings_fields)
  from error_containment [OF begin_sized fault]
  show ?thesis
    using begin_sized fault oversize_message
    by (auto simp: InvoiceProcessorService_init_def SystemStats_init_def)
qed


theorem size_boundary_witness:
  "begin_processing example_library (example_env1\<lparr>st_size := 10485761\<rparr>)
       (InvoiceProcessorService_init True) a_jpg False =
     Started example_result0
       ((InvoiceProcessorService_init True)
          \<lparr>processing_results := [(''d6a4b1b16fe171d8'', example_result0)]\<rparr>) \<and>
   path_exists [a_jpg] a_jpg \<and>
   st_size (example_env1\<lparr>st_size := 10485761\<rparr>) < 2 ^ 53 \<and>
   int (st_size (example_env1\<lparr>st_size := 10485761\<rparr>)) =
     max_file_size_mb example_settings * (1024 * 1024) + 1 \<and>
   (\<exists>e. fst (run_pipeline example_library example_settings (example_env1\<lparr>st_size := 10485761\<rparr>)
         ((InvoiceProcessorService_init True)
            \<lparr>processing_results := [(''d6a4b1b16fe171d8'', example_result0)]\<rparr>) [a_jpg] a_jpg) = Inl e \<and>
       is_size_exceeded e) \<and>
   error_message (fst (process_single_file example_library example_settings
       (example_env1\<lparr>st_size := 10485761\<rparr>) (InvoiceProcessorService_init True) [a_jpg] a_jpg False))
     = Some ''File size (10.00MB) exceeds maximum allowed size (10MB)'' \<and>
   int (st_size (example_env1\<lparr>st_size := 10485760\<rparr>)) =
     max_file_size_mb example_settings * (1024 * 1024) \<and>
   \<not> (\<exists>e. fst (run_pipeline example_library example_settings (example_env1\<lparr>st_size := 10485760\<rparr>)
         ((InvoiceProcessorService_init True)
            \<lparr>processing_results := [(''d6a4b1b16fe171d8'', example_result0)]\<rparr>) [a_jpg] a_jpg) = Inl e \<and>
       is_size_exceeded e) \<and>
   status (fst (process_single_file example_library example_settings
       (example_env1\<lparr>st_size := 10485760\<rparr>) (InvoiceProcessorService_init True) [a_jpg] a_jpg False))
     = SUCCESS"
proof -
  have ex: "path_exists [a_jpg] a_jpg" by (simp add: path_exists_def)
  have s1: "st_size (example_env1\<lparr>st_size := 10485761\<rparr>) < 2 ^ 53" by simp
  have s0: "st_size (example_env1\<lparr>st_size := 10485760\<rparr>) < 2 ^ 53" by simp
  have m1: "int (st_size (example_env1\<lparr>st_size := 10485761\<rparr>)) =
     max_file_size_mb example_settings * (1024 * 1024) + 1" by (simp add: settings_fields)
  have m0: "int (st_size (example_env1\<lparr>st_size := 10485760\<rparr>)) =
     max_file_size_mb example_settings * (1024 * 1024)" by (simp add: settings_fields)
  note over = size_boundary [OF begin_sized ex s1, of example_settings]
  note exact = size_boundary [OF begin_sized ex s0, of example_settings]
  from over m1 have a: "\<exists>e. fst (run_pipeline example_library example_settings
         (example_env1\<lparr>st_size := 10485761\<rparr>)
         ((InvoiceProcessorService_init True)
            \<lparr>processing_results := [(''d6a4b1b16fe171d8'', example_result0)]\<rparr>) [a_jpg] a_jpg) = Inl e \<and>
       is_size_exceeded e"
    by (elim conjE) (drule (1) mp, assumption)
  from exact m0 have b: "\<not> (\<exists>e. fst (run_pipeline example_library example_settings
         (example_env1\<lparr>st_size := 10485760\<rparr>)
         ((InvoiceProcessorService_init True)
            \<lparr>processing_results := [(''d6a4b1b16fe171d8'', example_result0)]\<rparr>) [a_jpg] a_jpg) = Inl e \<and>
       is_size_exceeded e)"
    by (elim conjE) (drule (1) mp, assumption)
  show ?thesis
    by (intro conjI begin_sized ex s1 m1 a one_byte_over_message m0 b exact_size_succeeds)
qed

section \<open>Properties of the statistics\<close>

lemma get_statistics_example:
  "average_processing_time (fst (get_statistics example_settings example_fs1 [] example_service1)) = 0"
  by (simp add: get_statistics_average example_service1_def SystemStats_init_def)

text \<open>
  C3. The claim is that the statistics report the mean of \<open>processing_time\<close> over the
  success entries, so that it is positive once a file has been processed. The code never
  computes it: \<open>get_statistics\<close> sets \<open>processing\<close> and \<open>pending\<close> only, and
  \<open>process_single_file\<close> bumps the counters only, so \<open>average_processing_time\<close> keeps
  the value 0.0 that \<open>SystemStats()\<close> gave it. After one file processed to \<open>SUCCESS\<close>
  in 1.5 seconds the reported average is 0, where the repository's test
  \<open>test_get_statistics\<close> expects 1.5.
\<close>

theorem average_processing_time_stays_zero:
  "average_processing_time (fst (get_statistics settings fs dirs self)) =
     average_processing_time (stats self) \<and>
   average_processing_time
     (stats (fst (snd (process_single_file lib settings env self fs file_path force_reprocess)))) =
     average_processing_time (stats self) \<and>
   process_single_file example_library example_settings example_env1
       (InvoiceProcessorService_init True) [a_jpg] a_jpg False =
     (example_result1, example_service1, example_fs1) \<and>
   status example_result1 = SUCCESS \<and>
   processing_time example_result1 = Some (3 / 2) \<and>
   dict_values (processing_results example_service1) = [example_result1] \<and>
   average_processing_time
     (fst (get_statistics example_settings example_fs1 [] example_service1)) = 0"
  by (simp add: get_statistics_average process_single_file_average process1 get_statistics_example)
     (simp add: example_result1_def example_service1_def dict_values_def SystemStats_init_def)

section \<open>Properties of the cache of process_single_file\<close>

lemma iso2: "isoformat (id_now example_env2) = ''2024-01-15T10:30:07.654321''"
  by (simp add: isoformat_def example_env2_def eval_num)

lemma suf2: "strftime_suffix (suffix_now example_env2) = ''20240115_103009''"
  by (simp add: strftime_suffix_def example_env2_def eval_num)

lemma fid2:
  "generate_file_id (md5_hexdigest example_library) (id_now example_env2) (id_uuid example_env2)
     ''a.jpg'' = ''983cebaa61c72db8''"
  by (simp add: generate_file_id_def iso2 example_library_def md5_examples_def)
     (simp add: example_env2_def)

lemma env2_fields:
  "st_size example_env2 = 2048" "encoded example_env2 = Inr ''/9j/4AAQ''"
  "invoked example_env2 = Responded ''{}''" "outer_expired example_env2 = False"
  "write_fails example_env2 = None" "copy_fails example_env2 = None"
  "unlink_fails example_env2 = None" "start_time example_env2 = 7" "end_time example_env2 = 9"
  by (simp_all add: example_env2_def)

lemma begin2:
  assumes "dict_get (processing_results self) ''983cebaa61c72db8'' = None"
  shows "begin_processing example_library example_env2 self a_jpg False =
     Started example_result2
       (self\<lparr>processing_results :=
                dict_set ''983cebaa61c72db8'' example_result2 (processing_results self)\<rparr>)"
  using assms
  by (simp add: begin_processing_def fid2 a_jpg_name Let_def example_result2_def)

lemma persist2:
  "persist_outputs example_settings example_env2 (example_fs1 @ [a_jpg]) a_jpg =
     (Inr ''a_20240115_103009.json'',
      example_fs1 @ [Path True [''srv'', ''generated'', ''a_20240115_103009.json''],
                     Path True [''srv'', ''generated'', ''a_20240115_103009.jpg'']])"
  by (simp add: persist_outputs_def suf2 a_jpg_unfolded a_jpg_parts Let_def
      create_timestamped_filename_def env2_fields settings_fields path_join_simple
      ensure_unique_filename_def path_exists_def a_jpg_def path_name_def example_fs1_def)


lemma process2:
  assumes miss: "dict_get (processing_results self) ''983cebaa61c72db8'' = None"
    and llm: "llm self" and ex: "path_exists fs a_jpg"
    and persist: "persist_outputs example_settings example_env2 fs a_jpg = (Inr name, fs')"
  shows "process_single_file example_library example_settings example_env2 self fs a_jpg False =
     (example_result2\<lparr>status := SUCCESS, processed_filename := name,
          invoice_data := Some empty_invoice, processing_time := Some 2,
          updated_at := updated_now example_env2\<rparr>,
      self\<lparr>processing_results :=
              dict_set ''983cebaa61c72db8''
                (example_result2\<lparr>status := SUCCESS, processed_filename := name,
                   invoice_data := Some empty_invoice, processing_time := Some 2,
                   updated_at := updated_now example_env2\<rparr>)
                (dict_set ''983cebaa61c72db8'' example_result2 (processing_results self)),
            stats := (stats self)\<lparr>total_processed := total_processed (stats self) + 1,
                        successful := successful (stats self) + 1\<rparr>,
            llm_invocations := llm_invocations self + 1\<rparr>,
      fs')"
proof -
  let ?self0 = "self\<lparr>processing_results :=
                dict_set ''983cebaa61c72db8'' example_result2 (processing_results self)\<rparr>"
  have rp: "run_pipeline example_library example_settings example_env2 ?self0 fs a_jpg =
     (Inr (empty_invoice, name), ?self0\<lparr>llm_invocations := llm_invocations ?self0 + 1\<rparr>, fs')"
    by (rule run_example [where img = "''/9j/4AAQ''"])
       (simp_all add: env2_fields persist llm ex)
  show ?thesis
    unfolding process_single_file_def begin2 [OF miss]
    by (simp add: finish_example [OF rp] env2_fields) (simp add: example_result2_def)
qed

text \<open>
  C1. The claim is that a second call for a file whose record is \<open>SUCCESS\<close> returns the
  cached record and does not invoke the model. The code looks the record up under a
  \<open>file_id\<close> that \<open>generate_file_id\<close> makes from the file name, the time of the call
  and a fresh UUID, so the second call computes another id, does not find the first
  record, invokes the model again and stores a second record. Here \<open>a.jpg\<close> is processed
  to \<open>SUCCESS\<close>, submitted again under the same name and processed a second time.
\<close>

theorem second_call_misses_cache:
  "process_single_file example_library example_settings example_env1
       (InvoiceProcessorService_init True) [a_jpg] a_jpg False =
     (example_result1, example_service1, example_fs1) \<and>
   status example_result1 = SUCCESS \<and>
   original_filename example_result1 = path_name a_jpg \<and>
   dict_get (processing_results example_service1) (file_id example_result1) = Some example_result1 \<and>
   generate_file_id (md5_hexdigest example_library) (id_now example_env2) (id_uuid example_env2)
     (path_name a_jpg) \<noteq> file_id example_result1 \<and>
   (case process_single_file example_library example_settings example_env2 example_service1
           (example_fs1 @ [a_jpg]) a_jpg False of
      (result2, self2, fs2) \<Rightarrow>
        result2 \<noteq> example_result1 \<and>
        file_id result2 = ''983cebaa61c72db8'' \<and>
        status result2 = SUCCESS \<and>
        llm_invocations self2 = llm_invocations example_service1 + 1 \<and>
        length (processing_results self2) = 2)"
proof -
  have miss: "dict_get (processing_results example_service1) ''983cebaa61c72db8'' = None"
    by (simp add: example_service1_def dict_get_def)
  have llm: "llm example_service1" by (simp add: example_service1_def)
  have ex: "path_exists (example_fs1 @ [a_jpg]) a_jpg" by (simp add: path_exists_def)
  have id1: "file_id example_result1 = ''d6a4b1b16fe171d8''"
    by (simp add: example_result1_def example_result0_def)
  show ?thesis
    unfolding process2 [OF miss llm ex persist2]
    by (simp add: process1 a_jpg_name fid2 id1)
       (simp add: example_result1_def example_result0_def example_result2_def
         example_service1_def dict_get_def)
qed

section \<open>Properties of the sweep\<close>

















end
